theory Spec2Isabelle
  imports Complex_Main "HOL-Library.Word"
begin

section \<open>JavaScript values\<close>

text \<open>
  The service is TypeScript on Node. Its values are modelled as follows.
  \<^item> A \<^verbatim>\<open>number\<close> is a \<open>jsnum\<close>: a finite double \<open>Num x\<close> with the real \<open>x\<close> as its value
    (the two zeros are one value), an infinity, or \<^verbatim>\<open>NaN\<close>. An arithmetic operation on
    finite doubles gives the exact result rounded to a double, which is an infinity when
    it overflows; this rounding is \<open>round_double\<close> of the runtime below.
  \<^item> A string is a \<^typ>\<open>string\<close>, taken to be well-formed text.
  \<^item> A JSON value (a request body, the arguments of a job) is a \<open>jsval\<close>; a number in
    it is finite, and an object is an association list with distinct keys. Reading a property gives a \<open>jsval option\<close>,
    \<open>None\<close> being \<^verbatim>\<open>undefined\<close>.
  \<^item> An instant (\<^verbatim>\<open>Date\<close>, or the ISO-8601 text of one) is a \<^typ>\<open>nat\<close>: milliseconds
    since the epoch, for the years 1970 to 9999. Every function that reads the clock takes
    the reading as \<open>now\<close>.
  \<^item> The identifiers \<^verbatim>\<open>nanoid\<close> draws are inputs of the functions that draw them.
  \<^item> A thrown exception is the \<open>Inl\<close> of a sum.
  \<^item> A field name that several interfaces share carries a prefix for its interface
    (\<open>q_status\<close>, \<open>p_status\<close>, \<open>j_status\<close>); \<^verbatim>\<open>proof\<close> is \<open>p_proof\<close>, \<open>v_proof\<close> and \<open>b_proof\<close>.
\<close>

datatype jsval =
    JNull
  | JBool bool
  | JNum real
  | JStr string
  | JArr "jsval list"
  | JObj "(string \<times> jsval) list"

datatype jsnum = Num real | PosInf | NegInf | NaN

type_synonym args = "(string \<times> jsval) list"

text \<open>Truthiness, as \<^verbatim>\<open>!x\<close> and \<^verbatim>\<open>x || d\<close> test it.\<close>

fun truthy :: "jsval option \<Rightarrow> bool" where
  "truthy None = False"
| "truthy (Some JNull) = False"
| "truthy (Some (JBool b)) = b"
| "truthy (Some (JNum r)) = (r \<noteq> 0)"
| "truthy (Some (JStr s)) = (s \<noteq> [])"
| "truthy (Some (JArr _)) = True"
| "truthy (Some (JObj _)) = True"

definition or_else :: "jsval option \<Rightarrow> jsval \<Rightarrow> jsval" where
  "or_else v d = (case v of None \<Rightarrow> d | Some x \<Rightarrow> if truthy v then x else d)"

text \<open>
  Built-ins of the language that the code relies on and that are left uninterpreted:
  the rounding of an exact result to a double (to the nearest one, or to an infinity),
  \<^verbatim>\<open>ToNumber\<close> on a string, an array or an object, \<^verbatim>\<open>ToString\<close> of a value that is
  not a string (template literals), \<^verbatim>\<open>Math.sqrt\<close> of a finite number, and
  \<^verbatim>\<open>Date.prototype.toISOString\<close>.
\<close>

record runtime =
  round_double :: "real \<Rightarrow> jsnum"
  ToNumber_object :: "jsval \<Rightarrow> jsnum"
  ToString_value :: "jsval \<Rightarrow> string"
  sqrt_number :: "real \<Rightarrow> jsnum"
  toISOString :: "nat \<Rightarrow> string"

fun ToNumber :: "runtime \<Rightarrow> jsval option \<Rightarrow> jsnum" where
  "ToNumber rt None = NaN"
| "ToNumber rt (Some JNull) = Num 0"
| "ToNumber rt (Some (JBool b)) = Num (if b then 1 else 0)"
| "ToNumber rt (Some (JNum r)) = Num r"
| "ToNumber rt (Some v) = ToNumber_object rt v"

fun template :: "runtime \<Rightarrow> jsval \<Rightarrow> string" where
  "template rt (JStr s) = s"
| "template rt v = ToString_value rt v"

text \<open>
  The operators \<^verbatim>\<open>*\<close>, \<^verbatim>\<open>/\<close> and \<^verbatim>\<open><=\<close> on numbers, \<^verbatim>\<open>Math.ceil\<close>, \<^verbatim>\<open>Math.sqrt\<close>,
  and the numbers that \<^verbatim>\<open>||\<close> skips. Since the two zeros are one value, a quotient by zero
  takes the sign of the dividend; the code divides by the literal 100 only.
\<close>

fun js_mul :: "runtime \<Rightarrow> jsnum \<Rightarrow> jsnum \<Rightarrow> jsnum" where
  "js_mul rt NaN b = NaN"
| "js_mul rt a NaN = NaN"
| "js_mul rt (Num x) (Num y) = round_double rt (x * y)"
| "js_mul rt (Num x) PosInf = (if x = 0 then NaN else if 0 < x then PosInf else NegInf)"
| "js_mul rt (Num x) NegInf = (if x = 0 then NaN else if 0 < x then NegInf else PosInf)"
| "js_mul rt PosInf (Num y) = (if y = 0 then NaN else if 0 < y then PosInf else NegInf)"
| "js_mul rt NegInf (Num y) = (if y = 0 then NaN else if 0 < y then NegInf else PosInf)"
| "js_mul rt PosInf PosInf = PosInf"
| "js_mul rt PosInf NegInf = NegInf"
| "js_mul rt NegInf PosInf = NegInf"
| "js_mul rt NegInf NegInf = PosInf"

fun js_div :: "runtime \<Rightarrow> jsnum \<Rightarrow> jsnum \<Rightarrow> jsnum" where
  "js_div rt NaN b = NaN"
| "js_div rt a NaN = NaN"
| "js_div rt (Num x) (Num y) =
     (if y = 0 then (if x = 0 then NaN else if 0 < x then PosInf else NegInf)
      else round_double rt (x / y))"
| "js_div rt (Num x) PosInf = Num 0"
| "js_div rt (Num x) NegInf = Num 0"
| "js_div rt PosInf (Num y) = (if 0 \<le> y then PosInf else NegInf)"
| "js_div rt NegInf (Num y) = (if 0 \<le> y then NegInf else PosInf)"
| "js_div rt PosInf b = NaN"
| "js_div rt NegInf b = NaN"

fun js_le :: "jsnum \<Rightarrow> jsnum \<Rightarrow> bool" where
  "js_le NaN b = False"
| "js_le a NaN = False"
| "js_le NegInf b = True"
| "js_le a PosInf = True"
| "js_le (Num x) (Num y) = (x \<le> y)"
| "js_le a b = False"

fun Math_ceil :: "jsnum \<Rightarrow> jsnum" where
  "Math_ceil (Num x) = Num (of_int \<lceil>x\<rceil>)"
| "Math_ceil a = a"

fun Math_sqrt :: "runtime \<Rightarrow> jsnum \<Rightarrow> jsnum" where
  "Math_sqrt rt (Num x) = sqrt_number rt x"
| "Math_sqrt rt PosInf = PosInf"
| "Math_sqrt rt NegInf = NaN"
| "Math_sqrt rt NaN = NaN"

definition falsy_number :: "jsnum \<Rightarrow> bool" where
  "falsy_number a = (a = Num 0 \<or> a = NaN)"

text \<open>
  A member name that every plain object inherits from \<^verbatim>\<open>Object.prototype\<close>. The tables
  \<^verbatim>\<open>PRICING_RULES\<close> and \<^verbatim>\<open>WORKERS\<close> are plain objects indexed by the endpoint name, so
  for such a name the lookup finds the inherited member and not an entry of the table.
\<close>

definition object_prototype_members :: "string list" where
  "object_prototype_members =
     [''constructor'', ''hasOwnProperty'', ''isPrototypeOf'', ''propertyIsEnumerable'',
      ''toLocaleString'', ''toString'', ''valueOf'', ''__proto__'',
      ''__defineGetter__'', ''__defineSetter__'', ''__lookupGetter__'', ''__lookupSetter__'']"

datatype exn = Error string | SqliteError string | NotARule string

fun message :: "exn \<Rightarrow> string" where
  "message (Error m) = m"
| "message (SqliteError m) = m"
| "message (NotARule m) = m"

section \<open>The state store\<close>

datatype quote_status = Active | Expired | Used
datatype payment_status = Pending | Verified | Failed
datatype job_status = Queued | Processing | Completed | JobFailed

type_synonym units = "(string \<times> jsnum) list"

record Quote =
  q_id :: string
  q_endpoint :: string
  q_units :: units
  price_sats :: jsnum
  q_expires_at :: nat
  nonce :: string
  receiver_pubkey :: string
  asp_url :: string
  q_status :: quote_status

record Payment =
  p_id :: string
  p_quote_id :: string
  sender_pubkey :: string
  paid_sats :: jsnum
  ark_ref :: string
  vtxo_spend :: string
  p_proof :: string
  p_status :: payment_status

text \<open>
  What a worker returns. The mock handlers build an object from their arguments; the object
  is kept as the constructor of the handler with the arguments that determine it, and in
  full for \<^verbatim>\<open>compute\<close>: operation, input, output, time of computation.
\<close>

datatype payload =
    SummarizeOut string
  | GenerateImageOut jsval jsval jsval
  | TranslateOut jsval jsval jsval
  | ComputeOut string "jsval option" jsnum nat

record Job =
  j_id :: string
  payment_id :: string
  j_endpoint :: string
  args_json :: args
  j_status :: job_status
  result_json :: "payload option"
  error_message :: "string option"
  completed_at :: "nat option"

record receipt =
  settlement_ref :: "string option"
  r_paid_sats :: jsnum
  job_id :: string
  r_payment_id :: string

record response =
  result :: payload
  receipt :: receipt

record IdempotencyKey =
  i_key :: string
  response_json :: response
  i_expires_at :: nat

text \<open>
  The four tables, each a list of rows in insertion order. The columns \<^verbatim>\<open>created_at\<close>,
  which nothing reads, are left out. \<^verbatim>\<open>args_json\<close>, \<^verbatim>\<open>result_json\<close> and
  \<^verbatim>\<open>response_json\<close> hold the value whose \<^verbatim>\<open>JSON.stringify\<close> text the column stores.
\<close>

record DB =
  quotes :: "Quote list"
  payments :: "Payment list"
  jobs :: "Job list"
  idempotency_keys :: "IdempotencyKey list"

text \<open>
  SQLite compares the column \<^verbatim>\<open>expires_at\<close> with \<^verbatim>\<open>datetime('now')\<close> as text. The column
  holds the output of \<^verbatim>\<open>toISOString\<close>, \<^verbatim>\<open>YYYY-MM-DDTHH:MM:SS.sssZ\<close>, and \<^verbatim>\<open>datetime('now')\<close>
  is \<^verbatim>\<open>YYYY-MM-DD HH:MM:SS\<close>. The two agree on the ten characters of the date or differ
  there; when they agree the eleventh character decides, and \<^verbatim>\<open>T\<close> is greater than the
  space. So the stored instant is greater than now exactly when its UTC day is not before
  today, and less than now exactly when its UTC day is before today.
\<close>

definition utc_day :: "nat \<Rightarrow> nat" where
  "utc_day t = t div 86400000"

definition sql_gt_now :: "nat \<Rightarrow> nat \<Rightarrow> bool" where
  "sql_gt_now expires now = (utc_day now \<le> utc_day expires)"

definition sql_lt_now :: "nat \<Rightarrow> nat \<Rightarrow> bool" where
  "sql_lt_now expires now = (utc_day expires < utc_day now)"

definition getQuote :: "DB \<Rightarrow> string \<Rightarrow> Quote option" where
  "getQuote db i = find (\<lambda>q. q_id q = i) (quotes db)"

text \<open>
  The inserts. A row whose primary key, or whose nonce, is already in its table is refused,
  and so is a row whose foreign key names no row of the table it refers to: the store is
  opened with foreign keys enforced.
\<close>

definition DB_createQuote :: "DB \<Rightarrow> Quote \<Rightarrow> exn + Quote \<times> DB" where
  "DB_createQuote db quote =
     (if nonce quote \<in> set (map nonce (quotes db))
        then Inl (SqliteError ''UNIQUE constraint failed: quotes.nonce'')
      else if q_id quote \<in> set (map q_id (quotes db))
        then Inl (SqliteError ''UNIQUE constraint failed: quotes.id'')
      else Inr (quote, db\<lparr>quotes := quotes db @ [quote]\<rparr>))"

definition updateQuoteStatus :: "DB \<Rightarrow> string \<Rightarrow> quote_status \<Rightarrow> DB" where
  "updateQuoteStatus db i s =
     db\<lparr>quotes := map (\<lambda>q. if q_id q = i then q\<lparr>q_status := s\<rparr> else q) (quotes db)\<rparr>"

definition getPayment :: "DB \<Rightarrow> string \<Rightarrow> Payment option" where
  "getPayment db i = find (\<lambda>p. p_id p = i) (payments db)"

definition createPayment :: "DB \<Rightarrow> Payment \<Rightarrow> exn + Payment \<times> DB" where
  "createPayment db payment =
     (if p_id payment \<in> set (map p_id (payments db))
        then Inl (SqliteError ''UNIQUE constraint failed: payments.id'')
      else if p_quote_id payment \<notin> set (map q_id (quotes db))
        then Inl (SqliteError ''FOREIGN KEY constraint failed'')
      else Inr (payment, db\<lparr>payments := payments db @ [payment]\<rparr>))"

definition getJob :: "DB \<Rightarrow> string \<Rightarrow> Job option" where
  "getJob db i = find (\<lambda>j. j_id j = i) (jobs db)"

definition DB_createJob :: "DB \<Rightarrow> Job \<Rightarrow> exn + Job \<times> DB" where
  "DB_createJob db job =
     (if j_id job \<in> set (map j_id (jobs db))
        then Inl (SqliteError ''UNIQUE constraint failed: jobs.id'')
      else if payment_id job \<notin> set (map p_id (payments db))
        then Inl (SqliteError ''FOREIGN KEY constraint failed'')
      else Inr (job, db\<lparr>jobs := jobs db @ [job]\<rparr>))"

text \<open>
  \<^verbatim>\<open>updateJob\<close> sets the fields its \<^verbatim>\<open>updates\<close> argument defines; every call in the code
  passes a status.
\<close>

record JobUpdates =
  u_status :: "job_status option"
  u_result_json :: "payload option"
  u_error_message :: "string option"
  u_completed_at :: "nat option"

definition apply_updates :: "JobUpdates \<Rightarrow> Job \<Rightarrow> Job" where
  "apply_updates u j =
     j\<lparr>j_status := (case u_status u of Some s \<Rightarrow> s | None \<Rightarrow> j_status j),
       result_json := (case u_result_json u of Some r \<Rightarrow> Some r | None \<Rightarrow> result_json j),
       error_message := (case u_error_message u of Some m \<Rightarrow> Some m | None \<Rightarrow> error_message j),
       completed_at := (case u_completed_at u of Some t \<Rightarrow> Some t | None \<Rightarrow> completed_at j)\<rparr>"

definition updateJob :: "DB \<Rightarrow> string \<Rightarrow> JobUpdates \<Rightarrow> DB" where
  "updateJob db i u =
     db\<lparr>jobs := map (\<lambda>j. if j_id j = i then apply_updates u j else j) (jobs db)\<rparr>"

definition getIdempotencyKey :: "DB \<Rightarrow> nat \<Rightarrow> string \<Rightarrow> response option" where
  "getIdempotencyKey db now k =
     map_option response_json
       (find (\<lambda>e. i_key e = k \<and> sql_gt_now (i_expires_at e) now) (idempotency_keys db))"

definition setIdempotencyKey :: "DB \<Rightarrow> nat \<Rightarrow> string \<Rightarrow> response \<Rightarrow> nat \<Rightarrow> DB" where
  "setIdempotencyKey db now k responseJson ttlSeconds =
     db\<lparr>idempotency_keys :=
          filter (\<lambda>e. i_key e \<noteq> k) (idempotency_keys db)
          @ [\<lparr>i_key = k, response_json = responseJson, i_expires_at = now + ttlSeconds * 1000\<rparr>]\<rparr>"

definition cleanupExpired :: "DB \<Rightarrow> nat \<Rightarrow> DB" where
  "cleanupExpired db now =
     db\<lparr>idempotency_keys := filter (\<lambda>e. \<not> sql_lt_now (i_expires_at e) now) (idempotency_keys db),
        quotes := map (\<lambda>q. if q_status q = Active \<and> sql_lt_now (q_expires_at q) now
                            then q\<lparr>q_status := Expired\<rparr> else q) (quotes db)\<rparr>"

section \<open>Pricing and quotes\<close>

text \<open>\<^verbatim>\<open>units.k || d\<close>: the default replaces a count that is absent, zero or \<^verbatim>\<open>NaN\<close>.\<close>

definition units_or :: "units \<Rightarrow> string \<Rightarrow> jsnum \<Rightarrow> jsnum" where
  "units_or u k d = (case map_of u k of None \<Rightarrow> d | Some v \<Rightarrow> if falsy_number v then d else v)"

definition price_summarize :: "runtime \<Rightarrow> units \<Rightarrow> jsnum" where
  "price_summarize rt u =
     (let tokens = units_or u ''tokens'' (Num 1000)
      in Math_ceil (js_mul rt (js_div rt tokens (Num 100)) (Num 5)))"

definition price_generate_image :: "runtime \<Rightarrow> units \<Rightarrow> jsnum" where
  "price_generate_image rt u =
     (let images = units_or u ''images'' (Num 1) in js_mul rt images (Num 50))"

definition price_translate :: "runtime \<Rightarrow> units \<Rightarrow> jsnum" where
  "price_translate rt u =
     (let chars = units_or u ''characters'' (Num 500)
      in Math_ceil (js_mul rt (js_div rt chars (Num 100)) (Num 3)))"

definition price_compute :: "runtime \<Rightarrow> units \<Rightarrow> jsnum" where
  "price_compute rt u =
     (let seconds = units_or u ''seconds'' (Num 1) in js_mul rt seconds (Num 10))"

definition price_default :: "runtime \<Rightarrow> units \<Rightarrow> jsnum" where
  "price_default rt u =
     (let amount = units_or u ''amount'' (Num 1) in js_mul rt amount (Num 10))"

text \<open>
  The own properties of \<^verbatim>\<open>PRICING_RULES\<close>, and for each rule the unit count it reads and
  the count it takes when that one is absent or falsy.
\<close>

definition PRICING_RULES :: "runtime \<Rightarrow> string \<Rightarrow> (units \<Rightarrow> jsnum) option" where
  "PRICING_RULES rt name =
     (if name = ''summarize'' then Some (price_summarize rt)
      else if name = ''generate_image'' then Some (price_generate_image rt)
      else if name = ''translate'' then Some (price_translate rt)
      else if name = ''compute'' then Some (price_compute rt)
      else if name = ''default'' then Some (price_default rt)
      else None)"

definition rule_names :: "string list" where
  "rule_names = [''summarize'', ''generate_image'', ''translate'', ''compute'', ''default'']"

definition relevant_unit :: "string \<Rightarrow> string" where
  "relevant_unit name =
     (if name = ''summarize'' then ''tokens''
      else if name = ''generate_image'' then ''images''
      else if name = ''translate'' then ''characters''
      else if name = ''compute'' then ''seconds''
      else ''amount'')"

definition default_count :: "string \<Rightarrow> real" where
  "default_count name =
     (if name = ''summarize'' then 1000
      else if name = ''generate_image'' then 1
      else if name = ''translate'' then 500
      else if name = ''compute'' then 1
      else 1)"

text \<open>
  \<^verbatim>\<open>PRICING_RULES[req.endpoint] || PRICING_RULES.default\<close>. For a name in
  \<open>object_prototype_members\<close> the lookup gives the inherited member, which is truthy and
  is not a pricing rule; what calling it does is not modelled, and \<open>NotARule\<close> marks it.
\<close>

definition pricingFn :: "runtime \<Rightarrow> string \<Rightarrow> exn + (units \<Rightarrow> jsnum)" where
  "pricingFn rt endpoint =
     (case PRICING_RULES rt endpoint of
        Some f \<Rightarrow> Inr f
      | None \<Rightarrow> if endpoint \<in> set object_prototype_members then Inl (NotARule endpoint)
                else Inr (price_default rt))"

datatype payments_mode = Free | Testnet | Mainnet

record Config =
  paymentsMode :: payments_mode
  ark_aspUrl :: string
  ark_receiverPubkey :: string

record RoundInfo =
  roundId :: string
  timestamp :: string
  r_status :: string

text \<open>
  The client of the settlement network, as the services use it. \<open>getCurrentRound\<close> is
  asynchronous: its promise is fulfilled with a round or rejected with an error.
\<close>

record asp_client =
  getCurrentRound :: "nat \<Rightarrow> exn + RoundInfo"
  getReceiverPubkey :: string
  getAspUrl :: string

text \<open>The client of the repository; both branches of its \<open>getCurrentRound\<close> return the same.\<close>

definition ASPClient :: "runtime \<Rightarrow> Config \<Rightarrow> asp_client" where
  "ASPClient rt config =
     \<lparr>getCurrentRound = (\<lambda>now.
          Inr \<lparr>roundId = ''r_'' @ toISOString rt now,
               timestamp = toISOString rt now,
               r_status = ''active''\<rparr>),
      getReceiverPubkey = ark_receiverPubkey config,
      getAspUrl = ark_aspUrl config\<rparr>"

record QuoteRequest =
  req_endpoint :: string
  req_units :: "units option"

record QuoteResponse =
  res_endpoint :: string
  res_units :: units
  res_price_sats :: jsnum
  res_expires_at :: nat
  res_quote_id :: string
  res_asp_url :: string
  res_receiver_pubkey :: string
  round_hint :: string

text \<open>
  \<^verbatim>\<open>QuotesService.createQuote\<close>. \<open>n1\<close> and \<open>n2\<close> are the two \<^verbatim>\<open>nanoid\<close> draws.
\<close>

definition createQuote ::
  "runtime \<Rightarrow> asp_client \<Rightarrow> string \<Rightarrow> string \<Rightarrow> nat \<Rightarrow> DB \<Rightarrow> QuoteRequest \<Rightarrow>
   exn + QuoteResponse \<times> DB" where
  "createQuote rt aspClient n1 n2 now db req =
     (if req_endpoint req = [] then Inl (Error ''endpoint is required'')
      else
        let units = (case req_units req of None \<Rightarrow> [(''tokens'', Num 1000)] | Some u \<Rightarrow> u) in
        case pricingFn rt (req_endpoint req) of
          Inl e \<Rightarrow> Inl e
        | Inr f \<Rightarrow>
            let priceSats = f units in
            (case getCurrentRound aspClient now of
               Inl e \<Rightarrow> Inl e
             | Inr rnd \<Rightarrow>
                 let expiresAt = now + 30000;
                     quoteId = ''q_'' @ n1;
                     quote = \<lparr>q_id = quoteId, q_endpoint = req_endpoint req, q_units = units,
                              price_sats = priceSats, q_expires_at = expiresAt, nonce = n2,
                              receiver_pubkey = getReceiverPubkey aspClient,
                              asp_url = getAspUrl aspClient, q_status = Active\<rparr>
                 in (case DB_createQuote db quote of
                       Inl e \<Rightarrow> Inl e
                     | Inr (_, db') \<Rightarrow>
                         Inr (\<lparr>res_endpoint = req_endpoint req, res_units = units,
                               res_price_sats = priceSats, res_expires_at = expiresAt,
                               res_quote_id = quoteId, res_asp_url = getAspUrl aspClient,
                               res_receiver_pubkey = getReceiverPubkey aspClient,
                               round_hint = roundId rnd\<rparr>, db'))))"

text \<open>
  \<^verbatim>\<open>getValidQuote\<close> returns the quote or \<^verbatim>\<open>null\<close>, and may have written the status.
\<close>

definition getValidQuote :: "DB \<Rightarrow> nat \<Rightarrow> string \<Rightarrow> Quote option \<times> DB" where
  "getValidQuote db now quoteId =
     (case getQuote db quoteId of
        None \<Rightarrow> (None, db)
      | Some quote \<Rightarrow>
          if q_expires_at quote < now then (None, updateQuoteStatus db quoteId Expired)
          else if q_status quote \<noteq> Active then (None, db)
          else (Some quote, db))"

definition markQuoteUsed :: "DB \<Rightarrow> string \<Rightarrow> DB" where
  "markQuoteUsed db quoteId = updateQuoteStatus db quoteId Used"

section \<open>The payment verifier\<close>

record VerificationRequest =
  aspUrl :: string
  receiver :: string
  expectedSats :: jsnum
  spendBlob :: string
  v_proof :: string

record VerificationResult =
  ok :: bool
  reason :: "string option"
  settlementRef :: "string option"
  actualSats :: "jsnum option"
  v_roundId :: "string option"

definition base64_char :: "char \<Rightarrow> bool" where
  "base64_char c =
     (let n = (of_char c :: nat)
      in (65 \<le> n \<and> n \<le> 90) \<or> (97 \<le> n \<and> n \<le> 122) \<or> (48 \<le> n \<and> n \<le> 57)
         \<or> n = 43 \<or> n = 47 \<or> n = 61)"

definition validatePaymentFormat :: "string \<Rightarrow> string \<Rightarrow> bool" where
  "validatePaymentFormat blob prf =
     (if length blob < 10 \<or> length prf < 10 then False
      else blob \<noteq> [] \<and> list_all base64_char blob \<and> prf \<noteq> [] \<and> list_all base64_char prf)"

text \<open>
  \<^verbatim>\<open>simulateTxHash\<close>: the loop keeps a 32-bit signed integer (\<^verbatim>\<open>hash & hash\<close> truncates),
  printed in hexadecimal without sign and padded to sixteen digits.
\<close>

fun hash_loop :: "32 word \<Rightarrow> string \<Rightarrow> 32 word" where
  "hash_loop h [] = h"
| "hash_loop h (c # cs) = hash_loop ((push_bit 5 h - h) + of_nat (of_char c)) cs"

definition hex_digit :: "nat \<Rightarrow> char" where
  "hex_digit d = (if d < 10 then char_of (48 + d) else char_of (87 + d))"

definition simulateTxHash :: "string \<Rightarrow> string" where
  "simulateTxHash data =
     (let n = nat \<bar>sint (hash_loop 0 data)\<bar>
      in replicate 8 CHR ''0'' @ map (\<lambda>i. hex_digit ((n div 16 ^ i) mod 16)) [7, 6, 5, 4, 3, 2, 1, 0])"

fun decimal :: "nat \<Rightarrow> string" where
  "decimal n = (if n < 10 then [char_of (48 + n)] else decimal (n div 10) @ [char_of (48 + n mod 10)])"

declare decimal.simps [simp del]

text \<open>
  \<^verbatim>\<open>ArkVerifier.verifySpend\<close>. In free mode the round is awaited outside the \<^verbatim>\<open>try\<close>, so a
  rejection is thrown on; otherwise it is caught and reported as a verification error.
\<close>

definition verifySpend ::
  "Config \<Rightarrow> asp_client \<Rightarrow> nat \<Rightarrow> VerificationRequest \<Rightarrow> exn + VerificationResult" where
  "verifySpend config aspClient now req =
     (if spendBlob req = [] \<or> v_proof req = []
        then Inr \<lparr>ok = False, reason = Some ''missing_payment_data'', settlementRef = None,
                  actualSats = None, v_roundId = None\<rparr>
      else if paymentsMode config = Free then
        (if \<not> validatePaymentFormat (spendBlob req) (v_proof req)
           then Inr \<lparr>ok = False, reason = Some ''invalid_payment_format'', settlementRef = None,
                     actualSats = None, v_roundId = None\<rparr>
         else (case getCurrentRound aspClient now of
                 Inl e \<Rightarrow> Inl e
               | Inr rnd \<Rightarrow>
                   Inr \<lparr>ok = True, reason = None,
                        settlementRef = Some (''ark:round:'' @ roundId rnd @ ''/tx:free_mode_''
                                              @ decimal now),
                        actualSats = Some (expectedSats req),
                        v_roundId = Some (roundId rnd)\<rparr>))
      else
        (if \<not> validatePaymentFormat (spendBlob req) (v_proof req)
           then Inr \<lparr>ok = False, reason = Some ''invalid_payment_format'', settlementRef = None,
                     actualSats = None, v_roundId = None\<rparr>
         else (case getCurrentRound aspClient now of
                 Inl e \<Rightarrow>
                   Inr \<lparr>ok = False, reason = Some (''verification_error: '' @ message e),
                        settlementRef = None, actualSats = None, v_roundId = None\<rparr>
               | Inr rnd \<Rightarrow>
                   Inr \<lparr>ok = True, reason = None,
                        settlementRef = Some (''ark:round:'' @ roundId rnd @ ''/tx:''
                                              @ simulateTxHash (spendBlob req)),
                        actualSats = Some (expectedSats req),
                        v_roundId = Some (roundId rnd)\<rparr>)))"

section \<open>Workers and jobs\<close>

datatype JobResult = JobOk payload | JobError string

type_synonym worker = "args \<Rightarrow> string + payload"

definition summarize :: worker where
  "summarize a =
     (let text = map_of a ''text'' in
      if \<not> truthy text then Inl ''text is required''
      else case text of
             Some (JStr s) \<Rightarrow> Inr (SummarizeOut s)
           | _ \<Rightarrow> Inl ''text.split is not a function'')"

definition generate_image :: worker where
  "generate_image a =
     (let prompt = map_of a ''prompt'';
          width = or_else (map_of a ''width'') (JNum 512);
          height = or_else (map_of a ''height'') (JNum 512)
      in case prompt of
           None \<Rightarrow> Inl ''prompt is required''
         | Some p \<Rightarrow> if \<not> truthy prompt then Inl ''prompt is required''
                     else Inr (GenerateImageOut p width height))"

definition translate :: worker where
  "translate a =
     (let text = map_of a ''text'';
          from = or_else (map_of a ''from'') (JStr ''en'');
          to = or_else (map_of a ''to'') (JStr ''es'')
      in case text of
           None \<Rightarrow> Inl ''text is required''
         | Some t \<Rightarrow> if \<not> truthy text then Inl ''text is required''
                     else Inr (TranslateOut t from to))"

definition compute :: "runtime \<Rightarrow> nat \<Rightarrow> worker" where
  "compute rt now a =
     (let operation = map_of a ''operation'';
          val = map_of a ''value''
      in case operation of
           None \<Rightarrow> Inl ''operation is required''
         | Some opn \<Rightarrow>
             if \<not> truthy operation then Inl ''operation is required''
             else if opn = JStr ''square''
               then Inr (ComputeOut ''square'' val (js_mul rt (ToNumber rt val) (ToNumber rt val)) now)
             else if opn = JStr ''sqrt''
               then Inr (ComputeOut ''sqrt'' val (Math_sqrt rt (ToNumber rt val)) now)
             else if opn = JStr ''double''
               then Inr (ComputeOut ''double'' val (js_mul rt (ToNumber rt val) (Num 2)) now)
             else Inl (''unknown operation: '' @ template rt opn))"

text \<open>
  The own properties of \<^verbatim>\<open>WORKERS\<close>. The results below that use this table are about its
  own names; a name in \<open>object_prototype_members\<close> is outside it.
\<close>

definition WORKERS :: "runtime \<Rightarrow> nat \<Rightarrow> string \<Rightarrow> worker option" where
  "WORKERS rt now name =
     (if name = ''summarize'' then Some summarize
      else if name = ''generate_image'' then Some generate_image
      else if name = ''translate'' then Some translate
      else if name = ''compute'' then Some (compute rt now)
      else None)"

record JobRequest =
  jr_endpoint :: string
  jr_args :: args
  jr_paymentId :: string

definition createJob :: "string \<Rightarrow> DB \<Rightarrow> JobRequest \<Rightarrow> exn + Job \<times> DB" where
  "createJob n db req =
     DB_createJob db
       \<lparr>j_id = ''job_'' @ n, payment_id = jr_paymentId req, j_endpoint = jr_endpoint req,
        args_json = jr_args req, j_status = Queued, result_json = None, error_message = None,
        completed_at = None\<rparr>"

text \<open>
  \<^verbatim>\<open>executeJob\<close> throws when the job is missing; everything the worker throws, and a missing
  worker, is caught and recorded in the job.
\<close>

definition executeJob ::
  "(string \<Rightarrow> worker option) \<Rightarrow> nat \<Rightarrow> DB \<Rightarrow> string \<Rightarrow> exn + JobResult \<times> DB" where
  "executeJob workers now db jobId =
     (case getJob db jobId of
        None \<Rightarrow> Inl (Error ''job not found'')
      | Some job \<Rightarrow>
          let db1 = updateJob db jobId
                      \<lparr>u_status = Some Processing, u_result_json = None,
                       u_error_message = None, u_completed_at = None\<rparr>;
              thrown = (case workers (j_endpoint job) of
                          None \<Rightarrow> Inl (''no worker for endpoint: '' @ j_endpoint job)
                        | Some w \<Rightarrow> w (args_json job))
          in (case thrown of
               Inr res \<Rightarrow>
                 Inr (JobOk res,
                      updateJob db1 jobId
                        \<lparr>u_status = Some Completed, u_result_json = Some res,
                         u_error_message = None, u_completed_at = Some now\<rparr>)
             | Inl errorMessage \<Rightarrow>
                 Inr (JobError errorMessage,
                      updateJob db1 jobId
                        \<lparr>u_status = Some JobFailed, u_result_json = None,
                         u_error_message = Some errorMessage, u_completed_at = Some now\<rparr>)))"

section \<open>The paycall handler\<close>

record PayCallBody =
  b_quote_id :: string
  b_vtxo_spend :: string
  b_proof :: string
  b_sender_pubkey :: string
  b_endpoint :: string
  b_args :: args

text \<open>\<^verbatim>\<open>z.string().min(1)\<close> on a property, and \<^verbatim>\<open>PayCallBodySchema.parse\<close>.\<close>

fun string_min1 :: "jsval option \<Rightarrow> string option" where
  "string_min1 (Some (JStr s)) = (if s = [] then None else Some s)"
| "string_min1 _ = None"

definition PayCallBodySchema_parse :: "jsval \<Rightarrow> PayCallBody option" where
  "PayCallBodySchema_parse raw =
     (case raw of
        JObj kvs \<Rightarrow>
          (case (string_min1 (map_of kvs ''quote_id''), map_of kvs ''ark_payment'',
                 map_of kvs ''request'') of
             (Some quoteId, Some (JObj pay), Some (JObj request)) \<Rightarrow>
               (case (string_min1 (map_of pay ''vtxo_spend''), string_min1 (map_of pay ''proof''),
                      string_min1 (map_of pay ''sender_pubkey''),
                      string_min1 (map_of request ''endpoint''), map_of request ''args'') of
                  (Some spend, Some prf, Some sender, Some endpoint, Some (JObj a)) \<Rightarrow>
                    Some \<lparr>b_quote_id = quoteId, b_vtxo_spend = spend, b_proof = prf,
                          b_sender_pubkey = sender, b_endpoint = endpoint, b_args = a\<rparr>
                | _ \<Rightarrow> None)
           | _ \<Rightarrow> None)
      | _ \<Rightarrow> None)"

datatype detail = Message string | Details "string option" | Issues

datatype body = Ok response | Err string detail

datatype reply = Reply nat body

fun status_code :: "reply \<Rightarrow> nat" where
  "status_code (Reply c b) = c"

text \<open>
  What an invocation leaves behind: the reply, the store, and the calls it made to the
  verifier and to the job executor, in order, each with what the call gave back.
\<close>

datatype event =
    VerifierCalled VerificationRequest "exn + VerificationResult"
  | JobExecuted string "exn + JobResult"

record outcome =
  reply :: reply
  db_after :: DB
  events :: "event list"

definition internal_error :: "exn \<Rightarrow> reply" where
  "internal_error e = Reply 500 (Err ''internal_error'' (Message (message e)))"

text \<open>\<^verbatim>\<open>verified.actualSats || quote.price_sats\<close> and \<^verbatim>\<open>verified.settlementRef || ''\<close>.\<close>

definition sats_or :: "jsnum option \<Rightarrow> jsnum \<Rightarrow> jsnum" where
  "sats_or v d = (case v of None \<Rightarrow> d | Some x \<Rightarrow> if falsy_number x then d else x)"

definition string_or_empty :: "string option \<Rightarrow> string" where
  "string_or_empty v = (case v of None \<Rightarrow> [] | Some s \<Rightarrow> s)"

text \<open>
  The handler up to its first \<^verbatim>\<open>await\<close>, the call of the verifier: the idempotency check,
  the parse of the body, the validation of the quote and the endpoint check. It ends with
  a reply, or with the parsed body and the quote.
\<close>

definition paycall_validate ::
  "nat \<Rightarrow> DB \<Rightarrow> string \<Rightarrow> jsval \<Rightarrow> reply \<times> DB + PayCallBody \<times> Quote \<times> DB" where
  "paycall_validate now db idempotencyKey raw =
     (case (if idempotencyKey \<noteq> [] then getIdempotencyKey db now idempotencyKey else None) of
        Some cached \<Rightarrow> Inl (Reply 200 (Ok cached), db)
      | None \<Rightarrow>
          (case PayCallBodySchema_parse raw of
             None \<Rightarrow> Inl (Reply 400 (Err ''validation_error'' Issues), db)
           | Some body \<Rightarrow>
               (case getValidQuote db now (b_quote_id body) of
                  (None, db') \<Rightarrow>
                    Inl (Reply 409 (Err ''expired_or_missing_quote''
                           (Message ''Quote has expired, been used, or does not exist'')), db')
                | (Some quote, db') \<Rightarrow>
                    if q_endpoint quote \<noteq> b_endpoint body
                      then Inl (Reply 400 (Err ''endpoint_mismatch''
                                  (Message ''Request endpoint does not match quote'')), db')
                    else Inr (body, quote, db'))))"

text \<open>The argument of \<^verbatim>\<open>verifySpend\<close>, built from the quote and the body.\<close>

definition verification_request :: "Quote \<Rightarrow> PayCallBody \<Rightarrow> VerificationRequest" where
  "verification_request quote body =
     \<lparr>aspUrl = asp_url quote, receiver = receiver_pubkey quote,
      expectedSats = price_sats quote, spendBlob = b_vtxo_spend body,
      v_proof = b_proof body\<rparr>"

text \<open>The payment row and the response that the handler builds.\<close>

definition new_payment :: "string \<Rightarrow> PayCallBody \<Rightarrow> Quote \<Rightarrow> VerificationResult \<Rightarrow> Payment" where
  "new_payment paymentId body quote verified =
     \<lparr>p_id = paymentId, p_quote_id = b_quote_id body,
      sender_pubkey = b_sender_pubkey body,
      paid_sats = sats_or (actualSats verified) (price_sats quote),
      ark_ref = string_or_empty (settlementRef verified),
      vtxo_spend = b_vtxo_spend body, p_proof = b_proof body,
      p_status = Verified\<rparr>"

definition new_response ::
  "payload \<Rightarrow> VerificationResult \<Rightarrow> Quote \<Rightarrow> string \<Rightarrow> string \<Rightarrow> response" where
  "new_response res verified quote jobId paymentId =
     \<lparr>result = res,
      receipt = \<lparr>settlement_ref = settlementRef verified,
                 r_paid_sats = sats_or (actualSats verified) (price_sats quote),
                 job_id = jobId, r_payment_id = paymentId\<rparr>\<rparr>"

text \<open>
  The rest of the handler, from the answer of the verifier on. \<open>n1\<close> and \<open>n2\<close> are the
  \<^verbatim>\<open>nanoid\<close> draws of the payment and of the job.
\<close>

definition paycall_settle ::
  "(VerificationRequest \<Rightarrow> exn + VerificationResult) \<Rightarrow> (string \<Rightarrow> worker option) \<Rightarrow>
   string \<Rightarrow> string \<Rightarrow> nat \<Rightarrow> DB \<Rightarrow> string \<Rightarrow> PayCallBody \<Rightarrow> Quote \<Rightarrow> outcome" where
  "paycall_settle verifier workers n1 n2 now db idempotencyKey body quote =
     (let vreq = verification_request quote body;
          called = VerifierCalled vreq (verifier vreq)
      in case verifier vreq of
           Inl e \<Rightarrow> \<lparr>reply = internal_error e, db_after = db, events = [called]\<rparr>
         | Inr verified \<Rightarrow>
             if \<not> ok verified
               then \<lparr>reply = Reply 402 (Err ''payment_invalid'' (Details (reason verified))),
                     db_after = db, events = [called]\<rparr>
             else
               let paymentId = ''pay_'' @ n1 in
               (case createPayment db (new_payment paymentId body quote verified) of
                  Inl e \<Rightarrow> \<lparr>reply = internal_error e, db_after = db, events = [called]\<rparr>
                | Inr (_, db1) \<Rightarrow>
                    let db2 = markQuoteUsed db1 (b_quote_id body) in
                    (case createJob n2 db2
                            \<lparr>jr_endpoint = b_endpoint body, jr_args = b_args body,
                             jr_paymentId = paymentId\<rparr> of
                       Inl e \<Rightarrow> \<lparr>reply = internal_error e, db_after = db2, events = [called]\<rparr>
                     | Inr (job, db3) \<Rightarrow>
                         (case executeJob workers now db3 (j_id job) of
                            Inl e \<Rightarrow>
                              \<lparr>reply = internal_error e, db_after = db3,
                               events = [called, JobExecuted (j_id job) (Inl e)]\<rparr>
                          | Inr (JobError msg, db4) \<Rightarrow>
                              \<lparr>reply = Reply 500 (Err ''job_execution_failed'' (Message msg)),
                               db_after = db4,
                               events = [called, JobExecuted (j_id job) (Inr (JobError msg))]\<rparr>
                          | Inr (JobOk res, db4) \<Rightarrow>
                              let response = new_response res verified quote (j_id job) paymentId;
                                  db5 = (if idempotencyKey \<noteq> []
                                         then setIdempotencyKey db4 now idempotencyKey response 120
                                         else db4)
                              in \<lparr>reply = Reply 200 (Ok response), db_after = db5,
                                  events = [called, JobExecuted (j_id job) (Inr (JobOk res))]\<rparr>))))"

text \<open>
  One invocation run without interruption: validation at \<open>t1\<close>, the rest at \<open>t2\<close>.
\<close>

definition paycall ::
  "(VerificationRequest \<Rightarrow> exn + VerificationResult) \<Rightarrow> (string \<Rightarrow> worker option) \<Rightarrow>
   string \<Rightarrow> string \<Rightarrow> nat \<Rightarrow> nat \<Rightarrow> DB \<Rightarrow> string \<Rightarrow> jsval \<Rightarrow> outcome" where
  "paycall verifier workers n1 n2 t1 t2 db idempotencyKey raw =
     (case paycall_validate t1 db idempotencyKey raw of
        Inl (r, db') \<Rightarrow> \<lparr>reply = r, db_after = db', events = []\<rparr>
      | Inr (body, quote, db') \<Rightarrow>
          paycall_settle verifier workers n1 n2 t2 db' idempotencyKey body quote)"

text \<open>
  Two invocations \<open>A\<close> and \<open>B\<close> on the same store that overlap: \<open>B\<close> validates after
  \<open>A\<close> has validated and before \<open>A\<close> goes on from the answer of the verifier. This is a
  schedule of two handlers that both wait at the \<^verbatim>\<open>await\<close> of the verifier, on one event
  loop or in two processes that share the database file.
\<close>

definition paycall_overlapped ::
  "(VerificationRequest \<Rightarrow> exn + VerificationResult) \<Rightarrow> (string \<Rightarrow> worker option) \<Rightarrow>
   string \<Rightarrow> string \<Rightarrow> string \<Rightarrow> string \<Rightarrow> nat \<Rightarrow> nat \<Rightarrow> DB \<Rightarrow>
   string \<Rightarrow> jsval \<Rightarrow> string \<Rightarrow> jsval \<Rightarrow> outcome \<times> outcome" where
  "paycall_overlapped verifier workers a1 a2 b1 b2 t1 t2 db keyA rawA keyB rawB =
     (case paycall_validate t1 db keyA rawA of
        Inl (r, db1) \<Rightarrow>
          (\<lparr>reply = r, db_after = db1, events = []\<rparr>,
           paycall verifier workers b1 b2 t1 t2 db1 keyB rawB)
      | Inr (bodyA, quoteA, db1) \<Rightarrow>
          (case paycall_validate t1 db1 keyB rawB of
             Inl (r, db2) \<Rightarrow>
               (paycall_settle verifier workers a1 a2 t2 db2 keyA bodyA quoteA,
                \<lparr>reply = r, db_after = db2, events = []\<rparr>)
           | Inr (bodyB, quoteB, db2) \<Rightarrow>
               let outA = paycall_settle verifier workers a1 a2 t2 db2 keyA bodyA quoteA;
                   outB = paycall_settle verifier workers b1 b2 t2 (db_after outA) keyB bodyB quoteB
               in (outA, outB)))"

section \<open>Concrete inputs\<close>

text \<open>
  A runtime for the examples. Its built-ins are stand-ins: rounding is exact, coercion of
  an object gives \<^verbatim>\<open>NaN\<close>, and an instant prints as its number of milliseconds. Wherever
  an example computes with numbers, every exact result is itself a double (a whole number
  up to a thousand, or 0.25, 2.5), so that rounding to the nearest double is exact there
  too.
\<close>

definition rt0 :: runtime where
  "rt0 = \<lparr>round_double = Num, ToNumber_object = (\<lambda>_. NaN), ToString_value = (\<lambda>_. ''[object Object]''),
          sqrt_number = (\<lambda>_. NaN), toISOString = decimal\<rparr>"

definition config0 :: Config where
  "config0 = \<lparr>paymentsMode = Free, ark_aspUrl = ''https://asp.testnet.arkade.example'',
              ark_receiverPubkey = ''ark1q...''\<rparr>"

definition unreachable_asp :: asp_client where
  "unreachable_asp = (ASPClient rt0 config0)\<lparr>getCurrentRound := (\<lambda>now. Inl (Error ''fetch failed''))\<rparr>"

definition quote1 :: Quote where
  "quote1 = \<lparr>q_id = ''q_1'', q_endpoint = ''summarize'', q_units = [(''tokens'', Num 1000)],
             price_sats = Num 50, q_expires_at = 31000, nonce = ''n_1'',
             receiver_pubkey = ''ark1q...'', asp_url = ''https://asp.testnet.arkade.example'',
             q_status = Active\<rparr>"

definition db_empty :: DB where
  "db_empty = \<lparr>quotes = [], payments = [], jobs = [], idempotency_keys = []\<rparr>"

definition db1 :: DB where
  "db1 = db_empty\<lparr>quotes := [quote1]\<rparr>"

definition db1_used :: DB where
  "db1_used = db_empty\<lparr>quotes := [quote1\<lparr>q_status := Used\<rparr>]\<rparr>"

text \<open>The body of a request: quote, spend blob, proof, endpoint and arguments.\<close>

definition request_body :: "string \<Rightarrow> string \<Rightarrow> string \<Rightarrow> string \<Rightarrow> args \<Rightarrow> jsval" where
  "request_body quoteId spend prf endpoint a =
     JObj [(''quote_id'', JStr quoteId),
           (''ark_payment'', JObj [(''vtxo_spend'', JStr spend), (''proof'', JStr prf),
                                   (''sender_pubkey'', JStr ''ark1q'')]),
           (''request'', JObj [(''endpoint'', JStr endpoint), (''args'', JObj a)])]"

definition good_spend :: string where
  "good_spend = ''dGVzdGluZ3ZveG9zcGVuZGRhdGE=''"

definition good_proof :: string where
  "good_proof = ''dGVzdGluZ3Byb29mZGF0YQ==''"

definition verifier0 :: "VerificationRequest \<Rightarrow> exn + VerificationResult" where
  "verifier0 = verifySpend config0 (ASPClient rt0 config0) 2000"


definition summarize_request :: jsval where
  "summarize_request =
     request_body ''q_1'' good_spend good_proof ''summarize'' [(''text'', JStr ''test text'')]"

definition response1 :: response where
  "response1 =
     \<lparr>result = SummarizeOut ''test text'',
      receipt = \<lparr>settlement_ref = Some ''ark:round:r_2000/tx:free_mode_2000'', r_paid_sats = Num 50,
                 job_id = ''job_J'', r_payment_id = ''pay_P''\<rparr>\<rparr>"

definition entry1 :: IdempotencyKey where
  "entry1 = \<lparr>i_key = ''k1'', response_json = response1, i_expires_at = 122000\<rparr>"

definition db1_cached :: DB where
  "db1_cached = db1_used\<lparr>idempotency_keys := [entry1]\<rparr>"

definition compute_job :: Job where
  "compute_job =
     \<lparr>j_id = ''job_1'', payment_id = ''pay_1'', j_endpoint = ''compute'',
      args_json = [(''operation'', JStr ''square'')], j_status = Queued, result_json = None,
      error_message = None, completed_at = None\<rparr>"

definition translate_request :: jsval where
  "translate_request =
     request_body ''q_1'' good_spend good_proof ''translate'' [(''text'', JStr ''test text'')]"

definition translate_body :: PayCallBody where
  "translate_body =
     \<lparr>b_quote_id = ''q_1'', b_vtxo_spend = good_spend, b_proof = good_proof,
      b_sender_pubkey = ''ark1q'', b_endpoint = ''translate'',
      b_args = [(''text'', JStr ''test text'')]\<rparr>"

text \<open>Four invocations on the store \<open>db1\<close>, which holds the active quote \<open>quote1\<close>.\<close>

definition out_settled :: outcome where
  "out_settled =
     paycall verifier0 (WORKERS rt0 2000) ''P'' ''J'' 2000 2000 db1 ''k1'' summarize_request"

definition out_failed_job :: outcome where
  "out_failed_job =
     paycall verifier0 (WORKERS rt0 2000) ''P'' ''J'' 2000 2000 db1 ''k1''
       (request_body ''q_1'' good_spend good_proof ''summarize'' [])"

definition out_rejected :: outcome where
  "out_rejected =
     paycall verifier0 (WORKERS rt0 2000) ''P'' ''J'' 2000 2000 db1 ''k1''
       (request_body ''q_1'' ''short'' ''short'' ''summarize'' [(''text'', JStr ''test text'')])"


definition payment1 :: Payment where
  "payment1 =
     \<lparr>p_id = ''pay_P'', p_quote_id = ''q_1'', sender_pubkey = ''ark1q'', paid_sats = Num 50,
      ark_ref = ''ark:round:r_2000/tx:free_mode_2000'', vtxo_spend = good_spend,
      p_proof = good_proof, p_status = Verified\<rparr>"

definition accepted1 :: VerificationResult where
  "accepted1 =
     \<lparr>ok = True, reason = None, settlementRef = Some ''ark:round:r_2000/tx:free_mode_2000'',
      actualSats = Some (Num 50), v_roundId = Some ''r_2000''\<rparr>"

definition rejected1 :: VerificationResult where
  "rejected1 =
     \<lparr>ok = False, reason = Some ''invalid_payment_format'', settlementRef = None,
      actualSats = None, v_roundId = None\<rparr>"


definition vreq1 :: "string \<Rightarrow> string \<Rightarrow> VerificationRequest" where
  "vreq1 spend prf =
     \<lparr>aspUrl = ''https://asp.testnet.arkade.example'', receiver = ''ark1q...'',
      expectedSats = Num 50, spendBlob = spend, v_proof = prf\<rparr>"

section \<open>Results on pricing\<close>

text \<open>
  The order \<^verbatim>\<open><=\<close> on numbers and the operations of the rules. Rounding to the nearest
  double is monotone, and this is all that the results below ask of \<open>round_double\<close>.
\<close>

lemma units_or_truthy: "map_of u k = Some a \<Longrightarrow> \<not> falsy_number a \<Longrightarrow> units_or u k d = a"
  by (simp add: units_or_def)

lemma units_or_default:
  "map_of u k = None \<or> map_of u k = Some (Num 0) \<or> map_of u k = Some NaN \<Longrightarrow> units_or u k d = d"
  by (auto simp: units_or_def falsy_number_def)

lemma units_or_single: "\<not> falsy_number d \<Longrightarrow> units_or [(k, d)] k d' = d"
  by (simp add: units_or_def)

lemma js_le_bounds: "js_le r r \<Longrightarrow> js_le r PosInf \<and> js_le NegInf r"
  by (cases r) simp_all

lemma js_le_refl_left: "js_le a b \<Longrightarrow> js_le a a"
  by (cases a; cases b) simp_all

lemma positive_not_falsy: "js_le (Num 0) a \<Longrightarrow> a \<noteq> Num 0 \<Longrightarrow> \<not> falsy_number a"
  by (cases a) (simp_all add: falsy_number_def)

lemma positive_upward:
  "js_le (Num 0) a \<Longrightarrow> a \<noteq> Num 0 \<Longrightarrow> js_le a b \<Longrightarrow> js_le (Num 0) b \<and> b \<noteq> Num 0"
  by (cases a; cases b) auto

lemma js_div_mono:
  assumes rounding: "\<And>x y. x \<le> y \<Longrightarrow> js_le (round_double rt x) (round_double rt y)"
    and le: "js_le a b"
  shows "js_le (js_div rt a (Num 100)) (js_div rt b (Num 100))"
proof -
  have r: "js_le (round_double rt x) PosInf \<and> js_le NegInf (round_double rt x)" for x
    using rounding [of x x] by (simp add: js_le_bounds)
  show ?thesis using le r rounding by (cases a; cases b) (simp_all add: divide_right_mono)
qed

lemma js_mul_mono:
  assumes rounding: "\<And>x y. x \<le> y \<Longrightarrow> js_le (round_double rt x) (round_double rt y)"
    and c: "0 < c"
    and le: "js_le a b"
  shows "js_le (js_mul rt a (Num c)) (js_mul rt b (Num c))"
proof -
  have r: "js_le (round_double rt x) PosInf \<and> js_le NegInf (round_double rt x)" for x
    using rounding [of x x] by (simp add: js_le_bounds)
  show ?thesis using le r rounding c by (cases a; cases b) (simp_all add: mult_right_mono)
qed

lemma Math_ceil_mono: "js_le a b \<Longrightarrow> js_le (Math_ceil a) (Math_ceil b)"
  by (cases a; cases b) (simp_all add: ceiling_mono)

lemma Math_ceil_whole: "Math_ceil (Math_ceil a) = Math_ceil a"
  by (cases a) simp_all

lemma Math_ceil_above: "js_le a a \<Longrightarrow> js_le a (Math_ceil a)"
  by (cases a) simp_all

lemma rule_names_iff:
  "name \<in> set rule_names \<longleftrightarrow>
     name = ''summarize'' \<or> name = ''generate_image'' \<or> name = ''translate''
     \<or> name = ''compute'' \<or> name = ''default''"
  unfolding rule_names_def by (simp only: list.set insert_iff empty_iff simp_thms)

lemma rule_cases:
  assumes "name \<in> set rule_names"
  obtains "name = ''summarize''" | "name = ''generate_image''" | "name = ''translate''"
    | "name = ''compute''" | "name = ''default''"
proof -
  from assms have "name = ''summarize'' \<or> name = ''generate_image'' \<or> name = ''translate''
     \<or> name = ''compute'' \<or> name = ''default''" by (simp only: rule_names_iff)
  then show thesis by (elim disjE) (rule that, assumption)+
qed

text \<open>
  C3, as stated, fails twice. A count of zero is not negative, and the rule replaces it by
  its default: 0 tokens are priced as 1000 tokens, at 50 sats, and 100 tokens at 5 sats.
  And \<^verbatim>\<open>compute\<close> does not round: a quarter of a second costs 2.5 sats, which is not
  a whole number. Every number that these computations meet (0, 100, 1000, 10, 1, 5,
  50, 0.25 and 2.5) is a double, so that no operation rounds and the runtime \<open>rt0\<close>
  computes what the code does.
\<close>

theorem pricing_counterexample:
  "PRICING_RULES rt0 ''summarize'' = Some (price_summarize rt0)
   \<and> js_le (Num 0) (Num 0) \<and> js_le (Num 0) (Num 100)
   \<and> price_summarize rt0 [(''tokens'', Num 0)] = Num 50
   \<and> price_summarize rt0 [(''tokens'', Num 100)] = Num 5
   \<and> \<not> js_le (Num 50) (Num 5)
   \<and> PRICING_RULES rt0 ''compute'' = Some (price_compute rt0)
   \<and> price_compute rt0 [(''seconds'', Num (1 / 4))] = Num (5 / 2)
   \<and> Math_ceil (Num (5 / 2)) = Num 3"
  by (simp add: PRICING_RULES_def price_summarize_def price_compute_def units_or_def
      falsy_number_def rt0_def)

text \<open>
  C3, amended. Numbers are doubles, and \<open>round_double\<close> is any monotone rounding of the
  exact result of an operation (to the nearest double or to an infinity). For every pricing
  rule and every two unit mappings whose values \<open>a\<close> and \<open>b\<close> for the rule's unit count are
  strictly positive (possibly infinite) with \<open>a <= b\<close>, the price of the second is at least
  the price of the first. A mapping where the count is absent, zero or \<^verbatim>\<open>NaN\<close> is priced
  as one that holds the rule's default count: 1000 tokens, 1 image, 500 characters,
  1 second, 1 amount. \<^verbatim>\<open>summarize\<close> and \<^verbatim>\<open>translate\<close> compute the double
  \<^verbatim>\<open>(count / 100) * 5\<close>, respectively \<^verbatim>\<open>(count / 100) * 3\<close>, and round it up: the price is
  \<^verbatim>\<open>Math.ceil\<close> of that double, it is whole (or infinite) and not below that double.
  \<^verbatim>\<open>generate_image\<close>, \<^verbatim>\<open>compute\<close> and \<^verbatim>\<open>default\<close> return the double product of the
  count by 50, 10 and 10, and do not round it to a whole number.
\<close>

theorem pricing_monotone_positive:
  assumes rounding: "\<And>x y. x \<le> y \<Longrightarrow> js_le (round_double rt x) (round_double rt y)"
    and name: "name \<in> set rule_names"
    and rule: "PRICING_RULES rt name = Some f"
    and first: "map_of u1 (relevant_unit name) = Some a"
    and second: "map_of u2 (relevant_unit name) = Some b"
    and positive: "js_le (Num 0) a" "a \<noteq> Num 0"
    and le: "js_le a b"
    and absent: "map_of u0 (relevant_unit name) = None
                 \<or> map_of u0 (relevant_unit name) = Some (Num 0)
                 \<or> map_of u0 (relevant_unit name) = Some NaN"
  shows "js_le (f u1) (f u2)
     \<and> f u0 = f [(relevant_unit name, Num (default_count name))]
     \<and> (name = ''summarize'' \<longrightarrow>
          f u1 = Math_ceil (js_mul rt (js_div rt a (Num 100)) (Num 5))
          \<and> js_le (js_mul rt (js_div rt a (Num 100)) (Num 5)) (f u1))
     \<and> (name = ''translate'' \<longrightarrow>
          f u1 = Math_ceil (js_mul rt (js_div rt a (Num 100)) (Num 3))
          \<and> js_le (js_mul rt (js_div rt a (Num 100)) (Num 3)) (f u1))
     \<and> (name = ''summarize'' \<or> name = ''translate'' \<longrightarrow> Math_ceil (f u1) = f u1)
     \<and> (name = ''generate_image'' \<longrightarrow> f u1 = js_mul rt a (Num 50))
     \<and> (name = ''compute'' \<longrightarrow> f u1 = js_mul rt a (Num 10))
     \<and> (name = ''default'' \<longrightarrow> f u1 = js_mul rt a (Num 10))"
proof -
  have na: "\<not> falsy_number a" using positive by (rule positive_not_falsy)
  have nb: "\<not> falsy_number b"
    using positive_upward [OF positive le] by (simp add: positive_not_falsy)
  have lit: "\<not> falsy_number (Num 1000)" "\<not> falsy_number (Num 500)" "\<not> falsy_number (Num 1)"
    by (simp_all add: falsy_number_def)
  have scaled: "js_le (Math_ceil (js_mul rt (js_div rt a (Num 100)) (Num c)))
                      (Math_ceil (js_mul rt (js_div rt b (Num 100)) (Num c)))" if "0 < c" for c
    using rounding that js_div_mono [OF rounding le] by (intro Math_ceil_mono js_mul_mono)
  have product: "js_le (js_mul rt a (Num c)) (js_mul rt b (Num c))" if "0 < c" for c
    using rounding that le by (intro js_mul_mono)
  have above: "js_le (js_mul rt (js_div rt a (Num 100)) (Num c))
                     (Math_ceil (js_mul rt (js_div rt a (Num 100)) (Num c)))" if "0 < c" for c
    using rounding that js_div_mono [OF rounding js_le_refl_left [OF le]]
    by (intro Math_ceil_above js_mul_mono)
  from name show ?thesis
  proof (cases rule: rule_cases)
    case 1
    have f: "f = price_summarize rt" using rule unfolding 1 by (simp add: PRICING_RULES_def)
    have k: "relevant_unit name = ''tokens''" "default_count name = 1000"
      unfolding 1 by (simp_all add: relevant_unit_def default_count_def)
    have p1: "f u1 = Math_ceil (js_mul rt (js_div rt a (Num 100)) (Num 5))"
      and p2: "f u2 = Math_ceil (js_mul rt (js_div rt b (Num 100)) (Num 5))"
      using first second na nb unfolding f k by (simp_all add: price_summarize_def units_or_truthy)
    have p0: "f u0 = f [(''tokens'', Num 1000)]"
      using absent lit unfolding f k
      by (simp add: price_summarize_def units_or_default units_or_single)
    have "js_le (f u1) (f u2)" unfolding p1 p2 by (rule scaled) simp
    then show ?thesis using p0 p1 above [of 5] unfolding k
      by (simp add: 1 Math_ceil_whole)
  next
    case 2
    have f: "f = price_generate_image rt" using rule unfolding 2 by (simp add: PRICING_RULES_def)
    have k: "relevant_unit name = ''images''" "default_count name = 1"
      unfolding 2 by (simp_all add: relevant_unit_def default_count_def)
    have p1: "f u1 = js_mul rt a (Num 50)" and p2: "f u2 = js_mul rt b (Num 50)"
      using first second na nb unfolding f k
      by (simp_all add: price_generate_image_def units_or_truthy)
    have p0: "f u0 = f [(''images'', Num 1)]"
      using absent lit unfolding f k
      by (simp add: price_generate_image_def units_or_default units_or_single)
    have "js_le (f u1) (f u2)" unfolding p1 p2 by (rule product) simp
    then show ?thesis using p0 p1 unfolding k by (simp add: 2)
  next
    case 3
    have f: "f = price_translate rt" using rule unfolding 3 by (simp add: PRICING_RULES_def)
    have k: "relevant_unit name = ''characters''" "default_count name = 500"
      unfolding 3 by (simp_all add: relevant_unit_def default_count_def)
    have p1: "f u1 = Math_ceil (js_mul rt (js_div rt a (Num 100)) (Num 3))"
      and p2: "f u2 = Math_ceil (js_mul rt (js_div rt b (Num 100)) (Num 3))"
      using first second na nb unfolding f k by (simp_all add: price_translate_def units_or_truthy)
    have p0: "f u0 = f [(''characters'', Num 500)]"
      using absent lit unfolding f k
      by (simp add: price_translate_def units_or_default units_or_single)
    have "js_le (f u1) (f u2)" unfolding p1 p2 by (rule scaled) simp
    then show ?thesis using p0 p1 above [of 3] unfolding k
      by (simp add: 3 Math_ceil_whole)
  next
    case 4
    have f: "f = price_compute rt" using rule unfolding 4 by (simp add: PRICING_RULES_def)
    have k: "relevant_unit name = ''seconds''" "default_count name = 1"
      unfolding 4 by (simp_all add: relevant_unit_def default_count_def)
    have p1: "f u1 = js_mul rt a (Num 10)" and p2: "f u2 = js_mul rt b (Num 10)"
      using first second na nb unfolding f k by (simp_all add: price_compute_def units_or_truthy)
    have p0: "f u0 = f [(''seconds'', Num 1)]"
      using absent lit unfolding f k
      by (simp add: price_compute_def units_or_default units_or_single)
    have "js_le (f u1) (f u2)" unfolding p1 p2 by (rule product) simp
    then show ?thesis using p0 p1 unfolding k by (simp add: 4)
  next
    case 5
    have f: "f = price_default rt" using rule unfolding 5 by (simp add: PRICING_RULES_def)
    have k: "relevant_unit name = ''amount''" "default_count name = 1"
      unfolding 5 by (simp_all add: relevant_unit_def default_count_def)
    have p1: "f u1 = js_mul rt a (Num 10)" and p2: "f u2 = js_mul rt b (Num 10)"
      using first second na nb unfolding f k by (simp_all add: price_default_def units_or_truthy)
    have p0: "f u0 = f [(''amount'', Num 1)]"
      using absent lit unfolding f k
      by (simp add: price_default_def units_or_default units_or_single)
    have "js_le (f u1) (f u2)" unfolding p1 p2 by (rule product) simp
    then show ?thesis using p0 p1 unfolding k by (simp add: 5)
  qed
qed

text \<open>
  C3, a witness: \<^verbatim>\<open>summarize\<close> for 150 and for 1000 tokens, and for no count at all. The
  numbers met (150, 100, 1.5, 5, 7.5, 1000, 10, 50) are doubles, so \<open>rt0\<close>, whose rounding
  leaves every number as it is and so is monotone, computes what the code does: 150 tokens
  cost 8 sats.
\<close>

theorem pricing_monotone_positive_witness:
  "round_double rt0 = Num
   \<and> ''summarize'' \<in> set rule_names
   \<and> PRICING_RULES rt0 ''summarize'' = Some (price_summarize rt0)
   \<and> map_of [(''tokens'', Num 150)] (relevant_unit ''summarize'') = Some (Num 150)
   \<and> map_of [(''tokens'', Num 1000)] (relevant_unit ''summarize'') = Some (Num 1000)
   \<and> js_le (Num 0) (Num 150) \<and> Num 150 \<noteq> Num 0 \<and> js_le (Num 150) (Num 1000)
   \<and> map_of [] (relevant_unit ''summarize'') = (None :: jsnum option)
   \<and> js_le (price_summarize rt0 [(''tokens'', Num 150)]) (price_summarize rt0 [(''tokens'', Num 1000)])
   \<and> price_summarize rt0 [] = price_summarize rt0 [(''tokens'', Num 1000)]
   \<and> price_summarize rt0 [] = Num 50
   \<and> price_summarize rt0 [(''tokens'', Num 150)] = Num 8"
proof -
  have rounding: "x \<le> y \<Longrightarrow> js_le (round_double rt0 x) (round_double rt0 y)" for x y
    by (simp add: rt0_def)
  have name: "''summarize'' \<in> set rule_names" by (simp add: rule_names_def)
  have rule: "PRICING_RULES rt0 ''summarize'' = Some (price_summarize rt0)"
    by (simp add: PRICING_RULES_def)
  have k: "relevant_unit ''summarize'' = ''tokens''" "default_count ''summarize'' = 1000"
    by (simp_all add: relevant_unit_def default_count_def)
  have first: "map_of [(''tokens'', Num 150)] (relevant_unit ''summarize'') = Some (Num 150)"
    and second: "map_of [(''tokens'', Num 1000)] (relevant_unit ''summarize'') = Some (Num 1000)"
    and absent: "map_of [] (relevant_unit ''summarize'') = (None :: jsnum option)
                 \<or> map_of [] (relevant_unit ''summarize'') = Some (Num 0)
                 \<or> map_of [] (relevant_unit ''summarize'') = Some NaN"
    by (simp_all add: k)
  have positive: "js_le (Num 0) (Num 150)" "Num 150 \<noteq> Num 0" and le: "js_le (Num 150) (Num 1000)"
    by simp_all
  have price: "price_summarize rt0 [(''tokens'', Num 150)] = Num 8"
    by (simp add: price_summarize_def units_or_def falsy_number_def rt0_def)
  have none: "map_of [] (relevant_unit ''summarize'') = (None :: jsnum option)" by simp
  have exact: "round_double rt0 = Num" by (simp add: rt0_def)
  have fifty: "price_summarize rt0 [] = Num 50"
    by (simp add: price_summarize_def units_or_def rt0_def)
  note priced = pricing_monotone_positive [OF rounding name rule first second positive le absent]
  from priced have ordered: "js_le (price_summarize rt0 [(''tokens'', Num 150)])
      (price_summarize rt0 [(''tokens'', Num 1000)])" by (rule conjunct1)
  from priced have defaulted: "price_summarize rt0 [] = price_summarize rt0 [(''tokens'', Num 1000)]"
    unfolding k by (rule conjunct2 [THEN conjunct1])
  show ?thesis
    by (intro conjI exact name rule first second positive le none ordered defaulted fifty
        price)
qed

section \<open>Results on the paycall handler\<close>

lemma find_conj: "find P xs = Some e \<Longrightarrow> Q e \<Longrightarrow> find (\<lambda>x. P x \<and> Q x) xs = Some e"
  by (induction xs) (auto split: if_splits)

lemma sql_gt_now_later: "now < expires \<Longrightarrow> sql_gt_now expires now"
  by (simp add: sql_gt_now_def utc_day_def div_le_mono)

lemma paycall_validate_Inr:
  assumes "paycall_validate now db key raw = Inr (body, quote, db')"
  shows "db' = db \<and> PayCallBodySchema_parse raw = Some body
     \<and> getQuote db (b_quote_id body) = Some quote \<and> q_status quote = Active
     \<and> \<not> q_expires_at quote < now \<and> q_endpoint quote = b_endpoint body
     \<and> (key = [] \<or> getIdempotencyKey db now key = None)"
  using assms
  by (simp add: paycall_validate_def getValidQuote_def
      split: option.splits if_splits prod.splits)

lemma paycall_validate_hit:
  assumes "key \<noteq> []" "getIdempotencyKey db now key = Some cached"
  shows "paycall_validate now db key raw = Inl (Reply 200 (Ok cached), db)"
  using assms by (simp add: paycall_validate_def)

lemma paycall_Inl:
  "paycall_validate t1 db key raw = Inl (r, db') \<Longrightarrow>
   paycall verifier workers n1 n2 t1 t2 db key raw = \<lparr>reply = r, db_after = db', events = []\<rparr>"
  by (simp add: paycall_def)

lemma paycall_Inr:
  "paycall_validate t1 db key raw = Inr (body, quote, db') \<Longrightarrow>
   paycall verifier workers n1 n2 t1 t2 db key raw =
     paycall_settle verifier workers n1 n2 t2 db' key body quote"
  by (simp add: paycall_def)

text \<open>
  C4. When the \<^verbatim>\<open>Idempotency-Key\<close> header is present and the table holds an entry for it
  that has not expired, the handler replies 200 with the cached response of that entry,
  whatever the body is (also one that the schema rejects), whatever the verifier and the
  workers are; the store is left as it was and neither the verifier nor a job is called.
\<close>

theorem idempotency_hit_returns_cached:
  assumes "key \<noteq> []"
    and "find (\<lambda>e. i_key e = key) (idempotency_keys db) = Some e"
    and "now < i_expires_at e"
  shows "paycall verifier workers n1 n2 now t2 db key raw
           = \<lparr>reply = Reply 200 (Ok (response_json e)), db_after = db, events = []\<rparr>"
proof -
  have "find (\<lambda>e. i_key e = key \<and> sql_gt_now (i_expires_at e) now) (idempotency_keys db) = Some e"
    using assms(2,3) by (intro find_conj sql_gt_now_later)
  then have "getIdempotencyKey db now key = Some (response_json e)"
    by (simp add: getIdempotencyKey_def)
  then show ?thesis using assms(1) by (simp add: paycall_Inl paycall_validate_hit)
qed

lemma settle_verifier_events:
  "VerifierCalled vreq r \<in> set (events (paycall_settle verifier workers n1 n2 now db key body quote))
   \<longleftrightarrow> vreq = verification_request quote body \<and> r = verifier vreq"
  by (auto simp add: paycall_settle_def Let_def
      split: sum.splits prod.splits JobResult.splits)

lemma settle_rejected:
  assumes "verifier (verification_request quote body) = Inr res" "\<not> ok res"
  shows "paycall_settle verifier workers n1 n2 now db key body quote
     = \<lparr>reply = Reply 402 (Err ''payment_invalid'' (Details (reason res))), db_after = db,
        events = [VerifierCalled (verification_request quote body) (Inr res)]\<rparr>"
  using assms by (simp add: paycall_settle_def Let_def)

text \<open>
  C5. When the invocation calls the verifier and the verifier rejects the claim, the reply
  is 402 \<^verbatim>\<open>payment_invalid\<close> with the verifier's reason, the store is unchanged (no
  payment, no job, no idempotency entry), and the quote of the request is still active.
\<close>

theorem rejected_payment_leaves_no_trace:
  assumes out: "out = paycall verifier workers n1 n2 t1 t2 db key raw"
    and called: "VerifierCalled vreq (Inr res) \<in> set (events out)"
    and rejected: "\<not> ok res"
  shows "reply out = Reply 402 (Err ''payment_invalid'' (Details (reason res)))
     \<and> db_after out = db
     \<and> (\<exists>body quote. PayCallBodySchema_parse raw = Some body
           \<and> getQuote (db_after out) (b_quote_id body) = Some quote
           \<and> q_status quote = Active)"
proof (cases "paycall_validate t1 db key raw")
  case (Inl a)
  then have "events out = []" unfolding out by (cases a) (simp add: paycall_Inl)
  then show ?thesis using called by simp
next
  case (Inr b)
  obtain body quote db' where b: "b = (body, quote, db')" by (cases b)
  have v: "paycall_validate t1 db key raw = Inr (body, quote, db')" using Inr b by simp
  have facts: "db' = db" "PayCallBodySchema_parse raw = Some body"
    "getQuote db (b_quote_id body) = Some quote" "q_status quote = Active"
    using paycall_validate_Inr [OF v] by simp_all
  have eq: "out = paycall_settle verifier workers n1 n2 t2 db key body quote"
    unfolding out using paycall_Inr [OF v] facts(1) by simp
  have "verifier (verification_request quote body) = Inr res"
    using called unfolding eq settle_verifier_events by simp
  then have "out = \<lparr>reply = Reply 402 (Err ''payment_invalid'' (Details (reason res))),
       db_after = db, events = [VerifierCalled (verification_request quote body) (Inr res)]\<rparr>"
    unfolding eq using rejected by (rule settle_rejected)
  then show ?thesis using facts by simp
qed

lemma idem_updateQuoteStatus [simp]:
  "idempotency_keys (updateQuoteStatus db i s) = idempotency_keys db"
  by (simp add: updateQuoteStatus_def)

lemma idem_updateJob [simp]: "idempotency_keys (updateJob db i u) = idempotency_keys db"
  by (simp add: updateJob_def)

lemma idem_executeJob:
  "executeJob workers now db jid = Inr (r, db') \<Longrightarrow> idempotency_keys db' = idempotency_keys db"
  by (auto simp: executeJob_def Let_def split: option.splits sum.splits)

lemma idem_createJob:
  "createJob n db req = Inr (j, db') \<Longrightarrow> idempotency_keys db' = idempotency_keys db"
  by (auto simp: createJob_def DB_createJob_def split: if_splits)

lemma idem_createPayment:
  "createPayment db p = Inr (p', db') \<Longrightarrow> idempotency_keys db' = idempotency_keys db"
  by (auto simp: createPayment_def split: if_splits)

lemma idem_setIdempotencyKey:
  "idempotency_keys (setIdempotencyKey db now k r ttl)
     = filter (\<lambda>e. i_key e \<noteq> k) (idempotency_keys db)
       @ [\<lparr>i_key = k, response_json = r, i_expires_at = now + ttl * 1000\<rparr>]"
  by (simp add: setIdempotencyKey_def)

lemma paycall_settle_cases:
  assumes out: "out = paycall_settle verifier workers n1 n2 now db key body quote"
    and vr: "vr = verification_request quote body"
    and pid: "pid = ''pay_'' @ n1"
  obtains
    (threw) e where "verifier vr = Inl e"
      "out = \<lparr>reply = internal_error e, db_after = db, events = [VerifierCalled vr (Inl e)]\<rparr>"
  | (rejected) res where "verifier vr = Inr res" "\<not> ok res"
      "out = \<lparr>reply = Reply 402 (Err ''payment_invalid'' (Details (reason res))),
              db_after = db, events = [VerifierCalled vr (Inr res)]\<rparr>"
  | (no_payment) res e where "verifier vr = Inr res" "ok res"
      "createPayment db (new_payment pid body quote res) = Inl e"
      "out = \<lparr>reply = internal_error e, db_after = db, events = [VerifierCalled vr (Inr res)]\<rparr>"
  | (no_job) res p dbp e where "verifier vr = Inr res" "ok res"
      "createPayment db (new_payment pid body quote res) = Inr (p, dbp)"
      "createJob n2 (markQuoteUsed dbp (b_quote_id body))
         \<lparr>jr_endpoint = b_endpoint body, jr_args = b_args body, jr_paymentId = pid\<rparr> = Inl e"
      "out = \<lparr>reply = internal_error e, db_after = markQuoteUsed dbp (b_quote_id body),
              events = [VerifierCalled vr (Inr res)]\<rparr>"
  | (no_run) res p dbp job dbj e where "verifier vr = Inr res" "ok res"
      "createPayment db (new_payment pid body quote res) = Inr (p, dbp)"
      "createJob n2 (markQuoteUsed dbp (b_quote_id body))
         \<lparr>jr_endpoint = b_endpoint body, jr_args = b_args body, jr_paymentId = pid\<rparr>
         = Inr (job, dbj)"
      "executeJob workers now dbj (j_id job) = Inl e"
      "out = \<lparr>reply = internal_error e, db_after = dbj,
              events = [VerifierCalled vr (Inr res), JobExecuted (j_id job) (Inl e)]\<rparr>"
  | (job_failed) res p dbp job dbj msg dbx where "verifier vr = Inr res" "ok res"
      "createPayment db (new_payment pid body quote res) = Inr (p, dbp)"
      "createJob n2 (markQuoteUsed dbp (b_quote_id body))
         \<lparr>jr_endpoint = b_endpoint body, jr_args = b_args body, jr_paymentId = pid\<rparr>
         = Inr (job, dbj)"
      "executeJob workers now dbj (j_id job) = Inr (JobError msg, dbx)"
      "out = \<lparr>reply = Reply 500 (Err ''job_execution_failed'' (Message msg)), db_after = dbx,
              events = [VerifierCalled vr (Inr res), JobExecuted (j_id job) (Inr (JobError msg))]\<rparr>"
  | (job_ok) res p dbp job dbj r dbx where "verifier vr = Inr res" "ok res"
      "createPayment db (new_payment pid body quote res) = Inr (p, dbp)"
      "createJob n2 (markQuoteUsed dbp (b_quote_id body))
         \<lparr>jr_endpoint = b_endpoint body, jr_args = b_args body, jr_paymentId = pid\<rparr>
         = Inr (job, dbj)"
      "executeJob workers now dbj (j_id job) = Inr (JobOk r, dbx)"
      "out = \<lparr>reply = Reply 200 (Ok (new_response r res quote (j_id job) pid)),
              db_after = (if key \<noteq> []
                          then setIdempotencyKey dbx now key (new_response r res quote (j_id job) pid) 120
                          else dbx),
              events = [VerifierCalled vr (Inr res), JobExecuted (j_id job) (Inr (JobOk r))]\<rparr>"
proof (cases "verifier vr")
  case (Inl e)
  then show thesis using out vr by (intro threw [of e]) (simp_all add: paycall_settle_def Let_def)
next
  case (Inr res)
  note v = this
  show thesis
  proof (cases "ok res")
    case False
    then show thesis using out vr v
      by (intro rejected [of res]) (simp_all add: paycall_settle_def Let_def)
  next
    case True
    note okr = this
    show thesis
    proof (cases "createPayment db (new_payment pid body quote res)")
      case (Inl e)
      then show thesis using out vr v okr pid
        by (intro no_payment [of res e]) (simp_all add: paycall_settle_def Let_def)
    next
      case (Inr pp)
      obtain p dbp where pp: "pp = (p, dbp)" by (cases pp)
      note cp = Inr [unfolded pp]
      show thesis
      proof (cases "createJob n2 (markQuoteUsed dbp (b_quote_id body))
         \<lparr>jr_endpoint = b_endpoint body, jr_args = b_args body, jr_paymentId = pid\<rparr>")
        case (Inl e)
        then show thesis using out vr v okr pid cp
          by (intro no_job [of res p dbp e]) (simp_all add: paycall_settle_def Let_def)
      next
        case (Inr jj)
        obtain job dbj where jj: "jj = (job, dbj)" by (cases jj)
        note cj = Inr [unfolded jj]
        show thesis
        proof (cases "executeJob workers now dbj (j_id job)")
          case (Inl e)
          then show thesis using out vr v okr pid cp cj
            by (intro no_run [of res p dbp job dbj e]) (simp_all add: paycall_settle_def Let_def)
        next
          case (Inr rr)
          obtain jr dbx where rr: "rr = (jr, dbx)" by (cases rr)
          note ej = Inr [unfolded rr]
          show thesis
          proof (cases jr)
            case (JobError msg)
            then show thesis using out vr v okr pid cp cj ej
              by (intro job_failed [of res p dbp job dbj msg dbx])
                (simp_all add: paycall_settle_def Let_def)
          next
            case (JobOk r)
            then show thesis using out vr v okr pid cp cj ej
              by (intro job_ok [of res p dbp job dbj r dbx])
                (simp_all add: paycall_settle_def Let_def)
          qed
        qed
      qed
    qed
  qed
qed

lemma idem_markQuoteUsed [simp]: "idempotency_keys (markQuoteUsed db i) = idempotency_keys db"
  by (simp add: markQuoteUsed_def)

lemma settle_idempotency:
  assumes out: "out = paycall_settle verifier workers n1 n2 now db key body quote"
  shows "(\<forall>jid msg. JobExecuted jid (Inr (JobError msg)) \<in> set (events out) \<longrightarrow>
            reply out = Reply 500 (Err ''job_execution_failed'' (Message msg))
            \<and> idempotency_keys (db_after out) = idempotency_keys db)
      \<and> (\<forall>jid r. JobExecuted jid (Inr (JobOk r)) \<in> set (events out) \<longrightarrow>
            (\<exists>resp. reply out = Reply 200 (Ok resp) \<and> result resp = r
              \<and> idempotency_keys (db_after out) =
                   (if key \<noteq> []
                    then filter (\<lambda>e. i_key e \<noteq> key) (idempotency_keys db)
                         @ [\<lparr>i_key = key, response_json = resp, i_expires_at = now + 120 * 1000\<rparr>]
                    else idempotency_keys db)))
      \<and> ((\<forall>jid r. JobExecuted jid (Inr (JobOk r)) \<notin> set (events out)) \<longrightarrow>
            idempotency_keys (db_after out) = idempotency_keys db)"
  using out refl [of "verification_request quote body"] refl [of "''pay_'' @ n1"]
proof (cases rule: paycall_settle_cases)
  case (threw e)
  then show ?thesis by simp
next
  case (rejected res)
  then show ?thesis by simp
next
  case (no_payment res e)
  then show ?thesis by simp
next
  case (no_job res p dbp e)
  then show ?thesis using idem_createPayment [OF no_job(3)] by simp
next
  case (no_run res p dbp job dbj e)
  then show ?thesis
    using idem_createPayment [OF no_run(3)] idem_createJob [OF no_run(4)] by simp
next
  case (job_failed res p dbp job dbj msg dbx)
  then show ?thesis
    using idem_createPayment [OF job_failed(3)] idem_createJob [OF job_failed(4)]
      idem_executeJob [OF job_failed(5)] by simp
next
  case (job_ok res p dbp job dbj r dbx)
  then show ?thesis
    using idem_createPayment [OF job_ok(3)] idem_createJob [OF job_ok(4)]
      idem_executeJob [OF job_ok(5)]
    by (simp add: idem_setIdempotencyKey new_response_def)
qed

lemma idem_paycall_validate:
  "paycall_validate now db key raw = Inl (r, db') \<Longrightarrow> idempotency_keys db' = idempotency_keys db"
  by (auto simp: paycall_validate_def getValidQuote_def
      split: option.splits if_splits prod.splits)

text \<open>
  C6. When the job runs and fails, the reply is 500 \<^verbatim>\<open>job_execution_failed\<close> with the
  job's message and the idempotency table is unchanged. When the job runs and succeeds,
  the reply is 200 and, if a key was supplied, the invocation has replaced the entry of
  that key by one holding this response that expires 120 seconds after the write; without
  a key the table is unchanged. When no job succeeds the table is unchanged.
\<close>

theorem failed_job_is_not_cached:
  assumes out: "out = paycall verifier workers n1 n2 t1 t2 db key raw"
  shows "(\<forall>jid msg. JobExecuted jid (Inr (JobError msg)) \<in> set (events out) \<longrightarrow>
            reply out = Reply 500 (Err ''job_execution_failed'' (Message msg))
            \<and> idempotency_keys (db_after out) = idempotency_keys db)
      \<and> (\<forall>jid r. JobExecuted jid (Inr (JobOk r)) \<in> set (events out) \<longrightarrow>
            (\<exists>resp. reply out = Reply 200 (Ok resp) \<and> result resp = r
              \<and> idempotency_keys (db_after out) =
                   (if key \<noteq> []
                    then filter (\<lambda>e. i_key e \<noteq> key) (idempotency_keys db)
                         @ [\<lparr>i_key = key, response_json = resp, i_expires_at = t2 + 120 * 1000\<rparr>]
                    else idempotency_keys db)))
      \<and> ((\<forall>jid r. JobExecuted jid (Inr (JobOk r)) \<notin> set (events out)) \<longrightarrow>
            idempotency_keys (db_after out) = idempotency_keys db)"
proof (cases "paycall_validate t1 db key raw")
  case (Inl a)
  obtain r db' where a: "a = (r, db')" by (cases a)
  have "out = \<lparr>reply = r, db_after = db', events = []\<rparr>"
    unfolding out using Inl a by (simp add: paycall_Inl)
  then show ?thesis using idem_paycall_validate [of t1 db key raw r db'] Inl a by simp
next
  case (Inr b)
  obtain body quote db' where b: "b = (body, quote, db')" by (cases b)
  have v: "paycall_validate t1 db key raw = Inr (body, quote, db')" using Inr b by simp
  have "db' = db" using paycall_validate_Inr [OF v] by simp
  then have "out = paycall_settle verifier workers n1 n2 t2 db key body quote"
    unfolding out using paycall_Inr [OF v] by simp
  then show ?thesis by (rule settle_idempotency)
qed






lemma payments_markQuoteUsed [simp]: "payments (markQuoteUsed db i) = payments db"
  by (simp add: markQuoteUsed_def updateQuoteStatus_def)

lemma payments_updateJob [simp]: "payments (updateJob db i u) = payments db"
  by (simp add: updateJob_def)

lemma payments_setIdempotencyKey [simp]: "payments (setIdempotencyKey db now k r ttl) = payments db"
  by (simp add: setIdempotencyKey_def)



lemma getPayment_cong: "payments db' = payments db \<Longrightarrow> getPayment db' = getPayment db"
  by (rule ext) (simp add: getPayment_def)

lemma getPayment_markQuoteUsed [simp]: "getPayment (markQuoteUsed db i) = getPayment db"
  by (rule getPayment_cong) simp

lemma getPayment_setIdempotencyKey [simp]:
  "getPayment (setIdempotencyKey db now k r ttl) = getPayment db"
  by (rule getPayment_cong) simp




text \<open>
  C8, amended. When the body is well-formed and the quote it names is stored with an
  endpoint other than the request's, the invocation never calls the verifier (nor a job),
  and its reply is that of the first check that stops it:
  \<^item> 200 with the cached response, the store unchanged, when the key of the request has a
    live entry;
  \<^item> otherwise 409 \<^verbatim>\<open>expired_or_missing_quote\<close> when the quote has expired, and the status
    of the quote is then written as \<^verbatim>\<open>expired\<close>;
  \<^item> otherwise 409 \<^verbatim>\<open>expired_or_missing_quote\<close> when the quote is not active, the store
    unchanged;
  \<^item> otherwise 400 \<^verbatim>\<open>endpoint_mismatch\<close>, the store unchanged.
\<close>

theorem endpoint_mismatch_never_verifies:
  assumes parsed: "PayCallBodySchema_parse raw = Some body"
    and found: "getQuote db (b_quote_id body) = Some quote"
    and differs: "q_endpoint quote \<noteq> b_endpoint body"
  shows "events (paycall verifier workers n1 n2 t1 t2 db key raw) = []
     \<and> ((key = [] \<or> getIdempotencyKey db t1 key = None)
          \<and> \<not> q_expires_at quote < t1 \<and> q_status quote = Active \<longrightarrow>
        paycall verifier workers n1 n2 t1 t2 db key raw
          = \<lparr>reply = Reply 400 (Err ''endpoint_mismatch''
                                  (Message ''Request endpoint does not match quote'')),
             db_after = db, events = []\<rparr>)
     \<and> (\<forall>cached. key \<noteq> [] \<and> getIdempotencyKey db t1 key = Some cached \<longrightarrow>
        paycall verifier workers n1 n2 t1 t2 db key raw
          = \<lparr>reply = Reply 200 (Ok cached), db_after = db, events = []\<rparr>)
     \<and> ((key = [] \<or> getIdempotencyKey db t1 key = None) \<and> q_expires_at quote < t1 \<longrightarrow>
        paycall verifier workers n1 n2 t1 t2 db key raw
          = \<lparr>reply = Reply 409 (Err ''expired_or_missing_quote''
                                  (Message ''Quote has expired, been used, or does not exist'')),
             db_after = updateQuoteStatus db (b_quote_id body) Expired, events = []\<rparr>)
     \<and> ((key = [] \<or> getIdempotencyKey db t1 key = None)
          \<and> \<not> q_expires_at quote < t1 \<and> q_status quote \<noteq> Active \<longrightarrow>
        paycall verifier workers n1 n2 t1 t2 db key raw
          = \<lparr>reply = Reply 409 (Err ''expired_or_missing_quote''
                                  (Message ''Quote has expired, been used, or does not exist'')),
             db_after = db, events = []\<rparr>)"
proof -
  let ?gone = "Reply 409 (Err ''expired_or_missing_quote''
                 (Message ''Quote has expired, been used, or does not exist''))"
  let ?mismatch = "Reply 400 (Err ''endpoint_mismatch''
                     (Message ''Request endpoint does not match quote''))"
  have validated: "paycall_validate t1 db key raw =
      (case (if key \<noteq> [] then getIdempotencyKey db t1 key else None) of
         Some cached \<Rightarrow> Inl (Reply 200 (Ok cached), db)
       | None \<Rightarrow>
           if q_expires_at quote < t1
             then Inl (?gone, updateQuoteStatus db (b_quote_id body) Expired)
           else if q_status quote \<noteq> Active then Inl (?gone, db)
           else Inl (?mismatch, db))"
    using parsed found differs
    by (simp add: paycall_validate_def getValidQuote_def split: option.splits)
  show ?thesis
  proof (cases "if key \<noteq> [] then getIdempotencyKey db t1 key else None")
    case None
    then have miss: "key = [] \<or> getIdempotencyKey db t1 key = None" by (simp split: if_splits)
    have hit: "\<not> (key \<noteq> [] \<and> getIdempotencyKey db t1 key = Some cached)" for cached
      using miss by (elim disjE) simp_all
    show ?thesis unfolding paycall_def validated None using miss hit by simp
  next
    case (Some cached)
    then have hit: "key \<noteq> []" "getIdempotencyKey db t1 key = Some cached"
      by (simp_all split: if_splits)
    show ?thesis unfolding paycall_def validated Some using hit by simp
  qed
qed

section \<open>Results on jobs\<close>

lemma find_map_update:
  assumes "\<And>x. key (f x) = key x"
  shows "find (\<lambda>x. key x = i) (map (\<lambda>x. if key x = i then f x else x) xs)
         = map_option f (find (\<lambda>x. key x = i) xs)"
  using assms by (induction xs) auto

lemma j_id_apply_updates: "j_id (apply_updates u j) = j_id j"
  by (simp add: apply_updates_def)

lemma getJob_updateJob: "getJob (updateJob db i u) i = map_option (apply_updates u) (getJob db i)"
  unfolding getJob_def updateJob_def
  by (simp add: find_map_update [where key = j_id and f = "apply_updates u"] j_id_apply_updates)

lemma compute_missing_value:
  assumes "map_of a ''operation'' = Some (JStr opn)" "opn = ''square'' \<or> opn = ''double''"
    "map_of a ''value'' = None"
  shows "compute rt now a = Inr (ComputeOut opn None NaN now)"
  using assms(2)
proof
  assume "opn = ''square''"
  then show ?thesis using assms(1,3) by (simp add: compute_def)
next
  assume "opn = ''double''"
  then show ?thesis using assms(1,3) by (simp add: compute_def)
qed

text \<open>
  C10. A \<^verbatim>\<open>compute\<close> job whose arguments hold the operation \<^verbatim>\<open>square\<close> or \<^verbatim>\<open>double\<close> and
  no \<^verbatim>\<open>value\<close> does not fail: \<^verbatim>\<open>executeJob\<close> returns status ok with a result whose input
  is \<^verbatim>\<open>undefined\<close> and whose output is \<^verbatim>\<open>NaN\<close>, and the job is stored as completed with
  that result. The other three workers throw when their text or prompt is missing.
\<close>

theorem compute_without_value_completes:
  assumes job: "getJob db jobId = Some job"
    and endpoint: "j_endpoint job = ''compute''"
    and operation: "map_of (args_json job) ''operation'' = Some (JStr opn)"
    and known: "opn = ''square'' \<or> opn = ''double''"
    and missing: "map_of (args_json job) ''value'' = None"
  shows "\<exists>db'. executeJob (WORKERS rt now) now db jobId
                  = Inr (JobOk (ComputeOut opn None NaN now), db')
           \<and> map_option j_status (getJob db' jobId) = Some Completed
           \<and> map_option result_json (getJob db' jobId) = Some (Some (ComputeOut opn None NaN now))
           \<and> summarize [] = Inl ''text is required''
           \<and> translate [] = Inl ''text is required''
           \<and> generate_image [] = Inl ''prompt is required''"
proof -
  let ?u1 = "\<lparr>u_status = Some Processing, u_result_json = None,
               u_error_message = None, u_completed_at = None\<rparr>"
  let ?u2 = "\<lparr>u_status = Some Completed, u_result_json = Some (ComputeOut opn None NaN now),
               u_error_message = None, u_completed_at = Some now\<rparr>"
  let ?db' = "updateJob (updateJob db jobId ?u1) jobId ?u2"
  have w: "WORKERS rt now (j_endpoint job) = Some (compute rt now)"
    unfolding endpoint by (simp add: WORKERS_def)
  have c: "compute rt now (args_json job) = Inr (ComputeOut opn None NaN now)"
    using operation known missing by (rule compute_missing_value)
  have run: "executeJob (WORKERS rt now) now db jobId = Inr (JobOk (ComputeOut opn None NaN now), ?db')"
    using job w c by (simp add: executeJob_def)
  have got: "getJob ?db' jobId = Some (apply_updates ?u2 (apply_updates ?u1 job))"
    using job by (simp add: getJob_updateJob)
  have others: "summarize [] = Inl ''text is required'' \<and> translate [] = Inl ''text is required''
                \<and> generate_image [] = Inl ''prompt is required''"
    by (simp add: summarize_def translate_def generate_image_def)
  show ?thesis using run got others by (intro exI [of _ ?db']) (simp add: apply_updates_def)
qed

lemma compute_job_eval:
  "getJob (db_empty\<lparr>jobs := [compute_job]\<rparr>) ''job_1'' = Some compute_job
   \<and> j_endpoint compute_job = ''compute''
   \<and> map_of (args_json compute_job) ''operation'' = Some (JStr ''square'')
   \<and> map_of (args_json compute_job) ''value'' = None"
  by (simp add: getJob_def db_empty_def compute_job_def)

text \<open>C10, a witness: the queued job \<open>compute_job\<close>, which asks for a square of nothing.\<close>

theorem compute_without_value_completes_witness:
  "getJob (db_empty\<lparr>jobs := [compute_job]\<rparr>) ''job_1'' = Some compute_job
   \<and> j_endpoint compute_job = ''compute''
   \<and> map_of (args_json compute_job) ''operation'' = Some (JStr ''square'')
   \<and> map_of (args_json compute_job) ''value'' = None
   \<and> (\<exists>db'. executeJob (WORKERS rt0 2000) 2000 (db_empty\<lparr>jobs := [compute_job]\<rparr>) ''job_1''
                  = Inr (JobOk (ComputeOut ''square'' None NaN 2000), db')
           \<and> map_option j_status (getJob db' ''job_1'') = Some Completed)"
  using compute_without_value_completes [of "db_empty\<lparr>jobs := [compute_job]\<rparr>" "''job_1''"
      compute_job "''square''" rt0 2000] compute_job_eval
  by auto

section \<open>Results on quote issuance\<close>

text \<open>
  C7, as stated, fails: with a client whose round query is rejected, \<^verbatim>\<open>createQuote\<close> for the
  endpoint \<^verbatim>\<open>summarize\<close> throws the client's error and returns no quote; the insert into
  the store is never reached.
\<close>

theorem createQuote_round_failure_counterexample:
  "req_endpoint \<lparr>req_endpoint = ''summarize'', req_units = None\<rparr> \<noteq> []
   \<and> getCurrentRound unreachable_asp 1000 = Inl (Error ''fetch failed'')
   \<and> createQuote rt0 unreachable_asp ''A'' ''N'' 1000 db_empty
        \<lparr>req_endpoint = ''summarize'', req_units = None\<rparr> = Inl (Error ''fetch failed'')"
  by (simp add: createQuote_def pricingFn_def PRICING_RULES_def unreachable_asp_def)

text \<open>
  C7, amended. For a non-empty endpoint that is not a member name of \<^verbatim>\<open>Object.prototype\<close>,
  and identifier and nonce that the store does not hold yet: when the round query of the
  client returns a round, \<^verbatim>\<open>createQuote\<close> appends an active quote that expires 30 seconds
  later and returns it with the round as hint; when the round query fails, \<^verbatim>\<open>createQuote\<close>
  fails with the same error and persists nothing. The round query of the repository's own
  client always returns a round.
\<close>

theorem createQuote_persists_when_round_known:
  assumes endpoint: "req_endpoint req \<noteq> []"
    and plain: "req_endpoint req \<notin> set object_prototype_members"
    and fresh_id: "''q_'' @ n1 \<notin> set (map q_id (quotes db))"
    and fresh_nonce: "n2 \<notin> set (map nonce (quotes db))"
  shows "(\<forall>rnd. getCurrentRound aspClient now = Inr rnd \<longrightarrow>
            (\<exists>resp q. createQuote rt aspClient n1 n2 now db req
                         = Inr (resp, db\<lparr>quotes := quotes db @ [q]\<rparr>)
               \<and> q_id q = ''q_'' @ n1 \<and> res_quote_id resp = ''q_'' @ n1
               \<and> q_endpoint q = req_endpoint req \<and> q_status q = Active
               \<and> q_expires_at q = now + 30000
               \<and> res_price_sats resp = price_sats q
               \<and> round_hint resp = roundId rnd))
      \<and> (\<forall>e. getCurrentRound aspClient now = Inl e \<longrightarrow>
            createQuote rt aspClient n1 n2 now db req = Inl e)
      \<and> (\<exists>rnd. getCurrentRound (ASPClient rt config) now = Inr rnd)"
proof -
  obtain f where f: "pricingFn rt (req_endpoint req) = Inr f"
    using plain by (cases "PRICING_RULES rt (req_endpoint req)") (simp_all add: pricingFn_def)
  let ?units = "case req_units req of None \<Rightarrow> [(''tokens'', Num 1000)] | Some u \<Rightarrow> u"
  let ?q = "\<lparr>q_id = ''q_'' @ n1, q_endpoint = req_endpoint req, q_units = ?units,
             price_sats = f ?units, q_expires_at = now + 30000, nonce = n2,
             receiver_pubkey = getReceiverPubkey aspClient,
             asp_url = getAspUrl aspClient, q_status = Active\<rparr>"
  have ins: "DB_createQuote db ?q = Inr (?q, db\<lparr>quotes := quotes db @ [?q]\<rparr>)"
    using fresh_id fresh_nonce by (simp add: DB_createQuote_def)
  have ok: "\<exists>resp q. createQuote rt aspClient n1 n2 now db req
                         = Inr (resp, db\<lparr>quotes := quotes db @ [q]\<rparr>)
               \<and> q_id q = ''q_'' @ n1 \<and> res_quote_id resp = ''q_'' @ n1
               \<and> q_endpoint q = req_endpoint req \<and> q_status q = Active
               \<and> q_expires_at q = now + 30000
               \<and> res_price_sats resp = price_sats q
               \<and> round_hint resp = roundId rnd"
    if "getCurrentRound aspClient now = Inr rnd" for rnd
    using that endpoint f ins
    by (intro exI [of _ "\<lparr>res_endpoint = req_endpoint req, res_units = ?units,
                               res_price_sats = f ?units, res_expires_at = now + 30000,
                               res_quote_id = ''q_'' @ n1, res_asp_url = getAspUrl aspClient,
                               res_receiver_pubkey = getReceiverPubkey aspClient,
                               round_hint = roundId rnd\<rparr>"] exI [of _ ?q])
      (simp add: createQuote_def Let_def)
  have bad: "createQuote rt aspClient n1 n2 now db req = Inl e"
    if "getCurrentRound aspClient now = Inl e" for e
    using that endpoint f by (simp add: createQuote_def Let_def)
  have repo: "\<exists>rnd. getCurrentRound (ASPClient rt config) now = Inr rnd"
    by (simp add: ASPClient_def)
  show ?thesis using ok bad repo by (intro conjI allI impI)
qed

section \<open>The examples, evaluated\<close>

lemma decimal_2000: "decimal 2000 = ''2000''" by code_simp

lemmas model_defs = paycall_def paycall_validate_def paycall_settle_def getIdempotencyKey_def
  PayCallBodySchema_parse_def getValidQuote_def getQuote_def updateQuoteStatus_def
  verification_request_def new_payment_def new_response_def createPayment_def markQuoteUsed_def
  createJob_def DB_createJob_def executeJob_def getJob_def updateJob_def apply_updates_def
  setIdempotencyKey_def sats_or_def string_or_empty_def internal_error_def
  verifySpend_def validatePaymentFormat_def base64_char_def ASPClient_def
  WORKERS_def summarize_def generate_image_def translate_def compute_def or_else_def
  sql_gt_now_def utc_day_def falsy_number_def Let_def

lemmas input_defs = rt0_def config0_def quote1_def db_empty_def db1_def db1_used_def
  request_body_def good_spend_def good_proof_def verifier0_def summarize_request_def
  response1_def entry1_def db1_cached_def payment1_def accepted1_def vreq1_def

lemma eval_settled:
  "out_settled
   = \<lparr>reply = Reply 200 (Ok response1),
      db_after =
        \<lparr>quotes = [quote1\<lparr>q_status := Used\<rparr>], payments = [payment1],
         jobs = [\<lparr>j_id = ''job_J'', payment_id = ''pay_P'', j_endpoint = ''summarize'',
                  args_json = [(''text'', JStr ''test text'')], j_status = Completed,
                  result_json = Some (SummarizeOut ''test text''), error_message = None,
                  completed_at = Some 2000\<rparr>],
         idempotency_keys = [entry1]\<rparr>,
      events = [VerifierCalled (vreq1 good_spend good_proof) (Inr accepted1),
                JobExecuted ''job_J'' (Inr (JobOk (SummarizeOut ''test text'')))]\<rparr>"
  by (simp add: out_settled_def model_defs input_defs decimal_2000)

lemma eval_failed_job:
  "out_failed_job
   = \<lparr>reply = Reply 500 (Err ''job_execution_failed'' (Message ''text is required'')),
      db_after =
        \<lparr>quotes = [quote1\<lparr>q_status := Used\<rparr>], payments = [payment1],
         jobs = [\<lparr>j_id = ''job_J'', payment_id = ''pay_P'', j_endpoint = ''summarize'',
                  args_json = [], j_status = JobFailed, result_json = None,
                  error_message = Some ''text is required'', completed_at = Some 2000\<rparr>],
         idempotency_keys = []\<rparr>,
      events = [VerifierCalled (vreq1 good_spend good_proof) (Inr accepted1),
                JobExecuted ''job_J'' (Inr (JobError ''text is required''))]\<rparr>"
  by (simp add: out_failed_job_def model_defs input_defs decimal_2000)

lemma eval_rejected:
  "out_rejected
   = \<lparr>reply = Reply 402 (Err ''payment_invalid'' (Details (Some ''invalid_payment_format''))),
      db_after = db1,
      events = [VerifierCalled (vreq1 ''short'' ''short'') (Inr rejected1)]\<rparr>"
  by (simp add: out_rejected_def rejected1_def model_defs input_defs)


text \<open>
  C4, a witness: the store \<open>db1_cached\<close> holds the response of an earlier settlement under
  the key \<^verbatim>\<open>k1\<close>; a later request with that key and the body \<^verbatim>\<open>null\<close> gets it back.
\<close>

theorem idempotency_hit_returns_cached_witness:
  "''k1'' \<noteq> [] \<and> find (\<lambda>e. i_key e = ''k1'') (idempotency_keys db1_cached) = Some entry1
   \<and> (3000::nat) < i_expires_at entry1
   \<and> paycall verifier0 (WORKERS rt0 3000) ''P2'' ''J2'' 3000 3000 db1_cached ''k1'' JNull
       = \<lparr>reply = Reply 200 (Ok response1), db_after = db1_cached, events = []\<rparr>"
  using idempotency_hit_returns_cached [where key = "''k1''" and db = db1_cached and e = entry1
      and now = 3000 and verifier = verifier0 and workers = "WORKERS rt0 3000" and ?n1.0 = "''P2''"
      and ?n2.0 = "''J2''" and ?t2.0 = 3000 and raw = JNull]
  by (simp add: db1_cached_def entry1_def)

text \<open>
  C5, a witness: spend blob and proof are the five characters \<^verbatim>\<open>short\<close>, which the
  repository's verifier rejects as \<^verbatim>\<open>invalid_payment_format\<close>.
\<close>

theorem rejected_payment_leaves_no_trace_witness:
  "VerifierCalled (vreq1 ''short'' ''short'') (Inr rejected1) \<in> set (events out_rejected)
   \<and> \<not> ok rejected1
   \<and> reply out_rejected
       = Reply 402 (Err ''payment_invalid'' (Details (Some ''invalid_payment_format'')))
   \<and> db_after out_rejected = db1"
proof -
  have called: "VerifierCalled (vreq1 ''short'' ''short'') (Inr rejected1) \<in> set (events out_rejected)"
    by (simp add: eval_rejected)
  have rejected: "\<not> ok rejected1" by (simp add: rejected1_def)
  show ?thesis
    using rejected_payment_leaves_no_trace [OF out_rejected_def called rejected] called rejected
    by (simp add: rejected1_def)
qed

text \<open>
  C6, a witness: a \<^verbatim>\<open>summarize\<close> request without text under the key \<^verbatim>\<open>k1\<close>, whose job
  fails, and the same request with text, whose job succeeds.
\<close>

theorem failed_job_is_not_cached_witness:
  "JobExecuted ''job_J'' (Inr (JobError ''text is required'')) \<in> set (events out_failed_job)
   \<and> reply out_failed_job = Reply 500 (Err ''job_execution_failed'' (Message ''text is required''))
   \<and> idempotency_keys (db_after out_failed_job) = idempotency_keys db1
   \<and> JobExecuted ''job_J'' (Inr (JobOk (SummarizeOut ''test text''))) \<in> set (events out_settled)
   \<and> ''k1'' \<noteq> []
   \<and> (\<exists>resp. reply out_settled = Reply 200 (Ok resp)
         \<and> idempotency_keys (db_after out_settled)
             = [\<lparr>i_key = ''k1'', response_json = resp, i_expires_at = 2000 + 120 * 1000\<rparr>])"
proof -
  have failed: "JobExecuted ''job_J'' (Inr (JobError ''text is required'')) \<in> set (events out_failed_job)"
    by (simp add: eval_failed_job)
  have succeeded: "JobExecuted ''job_J'' (Inr (JobOk (SummarizeOut ''test text''))) \<in> set (events out_settled)"
    by (simp add: eval_settled)
  have empty: "idempotency_keys db1 = []" by (simp add: db1_def db_empty_def)
  note t1 = failed_job_is_not_cached [OF out_failed_job_def, THEN conjunct1, rule_format, OF failed]
  note t2 = failed_job_is_not_cached [OF out_settled_def, THEN conjunct2, THEN conjunct1,
      rule_format, OF succeeded]
  from t2 obtain resp where "reply out_settled = Reply 200 (Ok resp)
      \<and> idempotency_keys (db_after out_settled)
          = [\<lparr>i_key = ''k1'', response_json = resp, i_expires_at = 2000 + 120 * 1000\<rparr>]"
    by (auto simp: empty)
  then have "\<exists>resp. reply out_settled = Reply 200 (Ok resp)
         \<and> idempotency_keys (db_after out_settled)
             = [\<lparr>i_key = ''k1'', response_json = resp, i_expires_at = 2000 + 120 * 1000\<rparr>]" ..
  then show ?thesis using t1 failed succeeded by simp
qed


lemma translate_parsed: "PayCallBodySchema_parse translate_request = Some translate_body"
  by (simp add: PayCallBodySchema_parse_def translate_request_def translate_body_def input_defs)

text \<open>
  C8, a witness: a \<^verbatim>\<open>translate\<close> request against the \<^verbatim>\<open>summarize\<close> quote, once for each
  of the four replies: the quote active in \<open>db1\<close> (400), the same after its expiry (409,
  and the status written), the quote used in \<open>db1_used\<close> (409), and the key \<^verbatim>\<open>k1\<close> with
  its live entry in \<open>db1_cached\<close> (the cached 200).
\<close>

theorem endpoint_mismatch_never_verifies_witness:
  "PayCallBodySchema_parse translate_request = Some translate_body
   \<and> getQuote db1 (b_quote_id translate_body) = Some quote1
   \<and> q_endpoint quote1 \<noteq> b_endpoint translate_body
   \<and> getIdempotencyKey db1 2000 ''k1'' = None
   \<and> \<not> q_expires_at quote1 < 2000 \<and> q_status quote1 = Active
   \<and> paycall verifier0 (WORKERS rt0 2000) ''P'' ''J'' 2000 2000 db1 ''k1'' translate_request
       = \<lparr>reply = Reply 400 (Err ''endpoint_mismatch''
                               (Message ''Request endpoint does not match quote'')),
          db_after = db1, events = []\<rparr>
   \<and> q_expires_at quote1 < 40000
   \<and> paycall verifier0 (WORKERS rt0 40000) ''P'' ''J'' 40000 40000 db1 [] translate_request
       = \<lparr>reply = Reply 409 (Err ''expired_or_missing_quote''
                               (Message ''Quote has expired, been used, or does not exist'')),
          db_after = updateQuoteStatus db1 (b_quote_id translate_body) Expired, events = []\<rparr>
   \<and> getQuote db1_used (b_quote_id translate_body) = Some (quote1\<lparr>q_status := Used\<rparr>)
   \<and> q_endpoint (quote1\<lparr>q_status := Used\<rparr>) \<noteq> b_endpoint translate_body
   \<and> \<not> q_expires_at (quote1\<lparr>q_status := Used\<rparr>) < 2000
   \<and> q_status (quote1\<lparr>q_status := Used\<rparr>) \<noteq> Active
   \<and> paycall verifier0 (WORKERS rt0 2000) ''P'' ''J'' 2000 2000 db1_used [] translate_request
       = \<lparr>reply = Reply 409 (Err ''expired_or_missing_quote''
                               (Message ''Quote has expired, been used, or does not exist'')),
          db_after = db1_used, events = []\<rparr>
   \<and> getQuote db1_cached (b_quote_id translate_body) = Some (quote1\<lparr>q_status := Used\<rparr>)
   \<and> ''k1'' \<noteq> [] \<and> getIdempotencyKey db1_cached 3000 ''k1'' = Some response1
   \<and> paycall verifier0 (WORKERS rt0 3000) ''P'' ''J'' 3000 3000 db1_cached ''k1'' translate_request
       = \<lparr>reply = Reply 200 (Ok response1), db_after = db1_cached, events = []\<rparr>"
proof -
  have found: "getQuote db1 (b_quote_id translate_body) = Some quote1"
    by (simp add: getQuote_def translate_body_def input_defs)
  have differs: "q_endpoint quote1 \<noteq> b_endpoint translate_body"
    by (simp add: translate_body_def input_defs)
  have gate: "getIdempotencyKey db1 2000 ''k1'' = None" "\<not> q_expires_at quote1 < 2000"
    "q_status quote1 = Active"
    by (simp_all add: getIdempotencyKey_def input_defs)
  have late: "q_expires_at quote1 < 40000" by (simp add: input_defs)
  have found_used: "getQuote db1_used (b_quote_id translate_body) = Some (quote1\<lparr>q_status := Used\<rparr>)"
    and found_cached:
      "getQuote db1_cached (b_quote_id translate_body) = Some (quote1\<lparr>q_status := Used\<rparr>)"
    by (simp_all add: getQuote_def translate_body_def input_defs)
  have differs_used: "q_endpoint (quote1\<lparr>q_status := Used\<rparr>) \<noteq> b_endpoint translate_body"
    by (simp add: translate_body_def input_defs)
  have used: "\<not> q_expires_at (quote1\<lparr>q_status := Used\<rparr>) < 2000"
    "q_status (quote1\<lparr>q_status := Used\<rparr>) \<noteq> Active"
    by (simp_all add: input_defs)
  have key: "''k1'' \<noteq> []" by simp
  have hit: "getIdempotencyKey db1_cached 3000 ''k1'' = Some response1"
    by (simp add: getIdempotencyKey_def sql_gt_now_def utc_day_def input_defs)
  note active = endpoint_mismatch_never_verifies [OF translate_parsed found differs,
        where ?t1.0 = 2000 and key = "''k1''" and verifier = verifier0
          and workers = "WORKERS rt0 2000" and ?n1.0 = "''P''" and ?n2.0 = "''J''" and ?t2.0 = 2000]
  note expired = endpoint_mismatch_never_verifies [OF translate_parsed found differs,
        where ?t1.0 = 40000 and key = "[]" and verifier = verifier0
          and workers = "WORKERS rt0 40000" and ?n1.0 = "''P''" and ?n2.0 = "''J''"
          and ?t2.0 = 40000]
  note spent = endpoint_mismatch_never_verifies [OF translate_parsed found_used differs_used,
        where ?t1.0 = 2000 and key = "[]" and verifier = verifier0
          and workers = "WORKERS rt0 2000" and ?n1.0 = "''P''" and ?n2.0 = "''J''" and ?t2.0 = 2000]
  note cached = endpoint_mismatch_never_verifies [OF translate_parsed found_cached differs_used,
        where ?t1.0 = 3000 and key = "''k1''" and verifier = verifier0
          and workers = "WORKERS rt0 3000" and ?n1.0 = "''P''" and ?n2.0 = "''J''" and ?t2.0 = 3000]
  have r400: "paycall verifier0 (WORKERS rt0 2000) ''P'' ''J'' 2000 2000 db1 ''k1'' translate_request
       = \<lparr>reply = Reply 400 (Err ''endpoint_mismatch''
                               (Message ''Request endpoint does not match quote'')),
          db_after = db1, events = []\<rparr>"
    using active gate by simp
  have r409: "paycall verifier0 (WORKERS rt0 40000) ''P'' ''J'' 40000 40000 db1 [] translate_request
       = \<lparr>reply = Reply 409 (Err ''expired_or_missing_quote''
                               (Message ''Quote has expired, been used, or does not exist'')),
          db_after = updateQuoteStatus db1 (b_quote_id translate_body) Expired, events = []\<rparr>"
    using expired late by simp
  have r409': "paycall verifier0 (WORKERS rt0 2000) ''P'' ''J'' 2000 2000 db1_used [] translate_request
       = \<lparr>reply = Reply 409 (Err ''expired_or_missing_quote''
                               (Message ''Quote has expired, been used, or does not exist'')),
          db_after = db1_used, events = []\<rparr>"
    using spent used by simp
  have r200: "paycall verifier0 (WORKERS rt0 3000) ''P'' ''J'' 3000 3000 db1_cached ''k1''
                translate_request
       = \<lparr>reply = Reply 200 (Ok response1), db_after = db1_cached, events = []\<rparr>"
    using cached key hit by simp
  show ?thesis
    by (intro conjI translate_parsed found differs gate r400 late r409 found_used differs_used
        used r409' found_cached key hit r200)
qed

text \<open>
  C8, as stated, fails: the request's endpoint \<^verbatim>\<open>translate\<close> differs from the endpoint
  \<^verbatim>\<open>summarize\<close> of the stored quote, and the reply is not 400 \<^verbatim>\<open>endpoint_mismatch\<close> but 409
  \<^verbatim>\<open>expired_or_missing_quote\<close> when the quote is used, 409 when it has expired, and the
  cached 200 response when the key of the request has a live entry.
\<close>

theorem endpoint_mismatch_counterexample:
  "PayCallBodySchema_parse translate_request = Some translate_body
   \<and> getQuote db1_used (b_quote_id translate_body) = Some (quote1\<lparr>q_status := Used\<rparr>)
   \<and> q_endpoint (quote1\<lparr>q_status := Used\<rparr>) \<noteq> b_endpoint translate_body
   \<and> reply (paycall verifier0 (WORKERS rt0 2000) ''P'' ''J'' 2000 2000 db1_used [] translate_request)
       = Reply 409 (Err ''expired_or_missing_quote''
                     (Message ''Quote has expired, been used, or does not exist''))
   \<and> getQuote db1 (b_quote_id translate_body) = Some quote1
   \<and> q_endpoint quote1 \<noteq> b_endpoint translate_body
   \<and> reply (paycall verifier0 (WORKERS rt0 40000) ''P'' ''J'' 40000 40000 db1 [] translate_request)
       = Reply 409 (Err ''expired_or_missing_quote''
                     (Message ''Quote has expired, been used, or does not exist''))
   \<and> getQuote db1_cached (b_quote_id translate_body) = Some (quote1\<lparr>q_status := Used\<rparr>)
   \<and> reply (paycall verifier0 (WORKERS rt0 3000) ''P'' ''J'' 3000 3000 db1_cached ''k1''
               translate_request)
       = Reply 200 (Ok response1)"
  by (simp add: translate_request_def translate_body_def model_defs input_defs)

text \<open>
  C7, a witness: the endpoint \<^verbatim>\<open>summarize\<close> and an empty store, with the repository's
  client and with a client whose round query is rejected.
\<close>

theorem createQuote_persists_when_round_known_witness:
  "req_endpoint \<lparr>req_endpoint = ''summarize'', req_units = None\<rparr> \<noteq> []
   \<and> ''summarize'' \<notin> set object_prototype_members
   \<and> ''q_'' @ ''A'' \<notin> set (map q_id (quotes db_empty))
   \<and> ''N'' \<notin> set (map nonce (quotes db_empty))
   \<and> getCurrentRound (ASPClient rt0 config0) 1000
       = Inr \<lparr>roundId = ''r_1000'', timestamp = ''1000'', r_status = ''active''\<rparr>
   \<and> (\<exists>resp q. createQuote rt0 (ASPClient rt0 config0) ''A'' ''N'' 1000 db_empty
                    \<lparr>req_endpoint = ''summarize'', req_units = None\<rparr>
                  = Inr (resp, db_empty\<lparr>quotes := quotes db_empty @ [q]\<rparr>)
          \<and> q_id q = ''q_'' @ ''A'' \<and> q_status q = Active \<and> q_expires_at q = 1000 + 30000
          \<and> round_hint resp = ''r_1000'')
   \<and> getCurrentRound unreachable_asp 1000 = Inl (Error ''fetch failed'')
   \<and> createQuote rt0 unreachable_asp ''A'' ''N'' 1000 db_empty
        \<lparr>req_endpoint = ''summarize'', req_units = None\<rparr> = Inl (Error ''fetch failed'')"
proof -
  have endpoint: "req_endpoint \<lparr>req_endpoint = ''summarize'', req_units = None\<rparr> \<noteq> []" by simp
  have plain: "req_endpoint \<lparr>req_endpoint = ''summarize'', req_units = None\<rparr>
                 \<notin> set object_prototype_members"
    by (simp add: object_prototype_members_def)
  have fresh: "''q_'' @ ''A'' \<notin> set (map q_id (quotes db_empty))"
    "''N'' \<notin> set (map nonce (quotes db_empty))"
    by (simp_all add: db_empty_def)
  have decimal_1000: "decimal 1000 = ''1000''" by code_simp
  have rnd: "getCurrentRound (ASPClient rt0 config0) 1000
       = Inr \<lparr>roundId = ''r_1000'', timestamp = ''1000'', r_status = ''active''\<rparr>"
    by (simp add: ASPClient_def rt0_def decimal_1000)
  note t = createQuote_persists_when_round_known [OF endpoint plain fresh,
      where aspClient = "ASPClient rt0 config0" and now = 1000 and rt = rt0 and config = config0,
      THEN conjunct1, rule_format, OF rnd]
  from t obtain resp q where "createQuote rt0 (ASPClient rt0 config0) ''A'' ''N'' 1000 db_empty
                    \<lparr>req_endpoint = ''summarize'', req_units = None\<rparr>
                  = Inr (resp, db_empty\<lparr>quotes := quotes db_empty @ [q]\<rparr>)
          \<and> q_id q = ''q_'' @ ''A'' \<and> q_status q = Active \<and> q_expires_at q = 1000 + 30000
          \<and> round_hint resp = ''r_1000''"
    by auto
  then have "\<exists>resp q. createQuote rt0 (ASPClient rt0 config0) ''A'' ''N'' 1000 db_empty
                    \<lparr>req_endpoint = ''summarize'', req_units = None\<rparr>
                  = Inr (resp, db_empty\<lparr>quotes := quotes db_empty @ [q]\<rparr>)
          \<and> q_id q = ''q_'' @ ''A'' \<and> q_status q = Active \<and> q_expires_at q = 1000 + 30000
          \<and> round_hint resp = ''r_1000''"
    by (intro exI)
  moreover have bad: "getCurrentRound unreachable_asp 1000 = Inl (Error ''fetch failed'')"
    by (simp add: unreachable_asp_def)
  moreover note createQuote_persists_when_round_known [OF endpoint plain fresh,
      where aspClient = unreachable_asp and now = 1000 and rt = rt0 and config = config0,
      THEN conjunct2, THEN conjunct1, rule_format, OF bad]
  ultimately show ?thesis using plain fresh rnd by simp
qed

lemma cleanupExpired_keeps_settled:
  "map q_status (quotes (cleanupExpired db now)) ! i \<noteq> map q_status (quotes db) ! i
   \<Longrightarrow> i < length (quotes db)
   \<Longrightarrow> q_status (quotes db ! i) = Active \<and> q_status (quotes (cleanupExpired db now) ! i) = Expired"
  by (auto simp: cleanupExpired_def split: if_splits)

text \<open>
  C2, evaluated where the code departs from it. The quote of \<open>db1\<close> expires at 31000. It is
  settled at 2000 and is then \<open>used\<close>. The sweep leaves it \<open>used\<close>, also a day later. A
  second \<^verbatim>\<open>paycall\<close> for it at 40000 is answered 409, and its validation has rewritten the
  status from \<open>used\<close> to \<open>expired\<close>: \<^verbatim>\<open>getValidQuote\<close> tests the expiry before the status and
  updates without a condition on the status.
\<close>

theorem used_quote_becomes_expired:
  "map q_status (quotes (db_after out_settled)) = [Used]
   \<and> map q_status (quotes (cleanupExpired (db_after out_settled) 90000000)) = [Used]
   \<and> map q_status (quotes (snd (getValidQuote (db_after out_settled) 40000 ''q_1''))) = [Expired]
   \<and> reply (paycall verifier0 (WORKERS rt0 40000) ''P2'' ''J2'' 40000 40000 (db_after out_settled)
               [] summarize_request)
       = Reply 409 (Err ''expired_or_missing_quote''
                     (Message ''Quote has expired, been used, or does not exist''))
   \<and> map q_status (quotes (db_after
         (paycall verifier0 (WORKERS rt0 40000) ''P2'' ''J2'' 40000 40000 (db_after out_settled)
            [] summarize_request))) = [Expired]"
  unfolding eval_settled by (simp add: model_defs input_defs cleanupExpired_def sql_lt_now_def)

text \<open>
  C1, evaluated where the code departs from it. Two invocations for the active quote of
  \<open>db1\<close> overlap: both validate the quote before either has marked it used. Both reply 200,
  and the store holds two verified payments and two completed jobs for the one quote. Run
  one after the other, the second is answered 409.
\<close>

theorem overlapped_paycalls_settle_twice:
  "status_code (reply (fst (paycall_overlapped verifier0 (WORKERS rt0 2000) ''PA'' ''JA'' ''PB'' ''JB''
       2000 2000 db1 [] summarize_request [] summarize_request))) = 200
   \<and> status_code (reply (snd (paycall_overlapped verifier0 (WORKERS rt0 2000) ''PA'' ''JA'' ''PB'' ''JB''
       2000 2000 db1 [] summarize_request [] summarize_request))) = 200
   \<and> map (\<lambda>p. (p_id p, p_quote_id p, p_status p))
        (payments (db_after (snd (paycall_overlapped verifier0 (WORKERS rt0 2000)
           ''PA'' ''JA'' ''PB'' ''JB'' 2000 2000 db1 [] summarize_request [] summarize_request))))
       = [(''pay_PA'', ''q_1'', Verified), (''pay_PB'', ''q_1'', Verified)]
   \<and> map (\<lambda>j. (j_id j, payment_id j, j_status j))
        (jobs (db_after (snd (paycall_overlapped verifier0 (WORKERS rt0 2000)
           ''PA'' ''JA'' ''PB'' ''JB'' 2000 2000 db1 [] summarize_request [] summarize_request))))
       = [(''job_JA'', ''pay_PA'', Completed), (''job_JB'', ''pay_PB'', Completed)]
   \<and> status_code (reply (paycall verifier0 (WORKERS rt0 2000) ''PB'' ''JB'' 2000 2000
         (db_after (paycall verifier0 (WORKERS rt0 2000) ''PA'' ''JA'' 2000 2000 db1 []
                      summarize_request))
         [] summarize_request)) = 409"
  by (simp add: paycall_overlapped_def model_defs input_defs decimal_2000)

end
